theory Spec2Isabelle
  imports Main "HOL-Library.AList" "HOL-Library.Sublist"
begin

section \<open>Data model\<close>

subsection \<open>Schema definition nodes\<close>

text \<open>
  A schema definition node (a zod schema) is an object of the validation library.  The
  converters compare nodes with \<^verbatim>\<open>===\<close> and key the component registry by them, so a node
  is modelled by its identity, a handle; what the converters read of a node's \<^verbatim>\<open>_def\<close>
  is kept in a read-only heap from handles to descriptors.  Two handles are the same node
  exactly when they are equal; two different handles may carry equal descriptors
  (structurally equal, but distinct, nodes).
\<close>

type_synonym ZodType = nat

datatype UnknownKeysParam = passthrough | strict | strip

datatype CreationType = Input | Output

text \<open>
  A shape (\<^verbatim>\<open>ZodRawShape\<close>) is a plain object from field names to nodes.  It is modelled by
  the list \<^verbatim>\<open>Object.entries\<close> enumerates (its own enumerable properties), in that order.
\<close>

type_synonym ZodRawShape = "(string \<times> ZodType) list"

subsection \<open>Property reads and writes on plain objects\<close>

text \<open>
  The prototype of a plain object is \<^verbatim>\<open>Object.prototype\<close>.  A read \<^verbatim>\<open>obj[key]\<close> finds an
  own property first and an inherited one otherwise, so it is \<^verbatim>\<open>undefined\<close> only for a
  name that neither the object nor \<^verbatim>\<open>Object.prototype\<close> has.  The names below are the
  properties of \<^verbatim>\<open>Object.prototype\<close> in the language standard: its functions, and the
  accessor \<^verbatim>\<open>__proto__\<close>, which reads as the prototype itself.  What is inherited is a
  function or an object: it is not \<^verbatim>\<open>undefined\<close> and it is no value the object holds.
\<close>

definition Object_prototype_names :: "string list" where
  "Object_prototype_names =
     [''constructor'', ''__defineGetter__'', ''__defineSetter__'', ''hasOwnProperty'',
      ''__lookupGetter__'', ''__lookupSetter__'', ''isPrototypeOf'',
      ''propertyIsEnumerable'', ''toString'', ''valueOf'', ''__proto__'',
      ''toLocaleString'']"

datatype 'a PropertyValue = Undefined | Value 'a | Inherited

definition getProperty :: "(string \<times> 'a) list \<Rightarrow> string \<Rightarrow> 'a PropertyValue" where
  "getProperty obj key =
     (case map_of obj key of
        Some v \<Rightarrow> Value v
      | None \<Rightarrow> if key \<in> set Object_prototype_names then Inherited else Undefined)"

text \<open>
  An assignment \<^verbatim>\<open>obj[key] = v\<close> of an object \<open>v\<close> to a plain object replaces the value of
  an own property in place and appends a new own property otherwise, also for a name whose
  inherited property is a function.  For \<^verbatim>\<open>__proto__\<close> the inherited setter runs instead:
  it replaces the prototype of \<open>obj\<close>, and \<open>obj\<close> gets no own property.
\<close>

definition setProperty :: "string \<Rightarrow> 'a \<Rightarrow> (string \<times> 'a) list \<Rightarrow> (string \<times> 'a) list" where
  "setProperty key v obj = (if key = ''__proto__'' then obj else AList.update key v obj)"

text \<open>
  The fields of \<^verbatim>\<open>_def\<close> the converters read.  A field is meaningful for the kinds of
  node that carry it: \<open>def_shape\<close>, \<open>def_unknownKeys\<close>, \<open>def_catchall\<close> and \<open>def_extends\<close>
  (\<^verbatim>\<open>_def.extendMetadata?.extends\<close>) for a ZodObject, \<open>def_schema\<close> for a ZodEffects,
  \<open>def_values\<close> for a ZodLiteral (its one value) and a ZodEnum, \<open>def_options\<close> and
  \<open>def_discriminator\<close> for a ZodDiscriminatedUnion.  \<open>def_openapi_ref\<close> and
  \<open>def_openapi_effectType\<close> are \<^verbatim>\<open>_def.openapi?.ref\<close> and
  \<^verbatim>\<open>_def.openapi?.effectType\<close>, \<open>None\<close> when the metadata or the field is undefined.
\<close>

record ZodDef =
  def_typeName :: string
  def_openapi_ref :: "string option"
  def_openapi_effectType :: "CreationType option"
  def_shape :: ZodRawShape
  def_unknownKeys :: UnknownKeysParam
  def_catchall :: ZodType
  def_extends :: "ZodType option"
  def_schema :: ZodType
  def_values :: "string list"
  def_options :: "ZodType list"
  def_discriminator :: string

type_synonym ZodHeap = "ZodType \<Rightarrow> ZodDef"

subsection \<open>Schema objects\<close>

text \<open>
  An emitted fragment (\<^verbatim>\<open>oas31.SchemaObject | oas31.ReferenceObject\<close>) is a JSON object:
  the list of its entries in insertion order.  Whether a key is present is whether it is
  among the first components.
\<close>

datatype Json =
    JString string
  | JBool bool
  | JArray "Json list"
  | JObject "(string \<times> Json) list"

type_synonym SchemaObject = "(string \<times> Json) list"

text \<open>
  Object spread \<^verbatim>\<open>{ ...acc, ...obj }\<close>: the entries of \<open>obj\<close> are defined on \<open>acc\<close> in
  order, as own properties whatever their names; a key \<open>acc\<close> has gets the new value in
  place, another key is appended.
\<close>

definition spread :: "SchemaObject \<Rightarrow> SchemaObject \<Rightarrow> SchemaObject" where
  "spread acc obj = foldl (\<lambda>a (k, v). AList.update k v a) acc obj"

subsection \<open>Component registry and traversal state\<close>

datatype SchemaComponent =
    ManualSchemaComponent (ref: string)
  | CompleteSchemaComponent (ref: string) (schemaObject: SchemaObject)
      (creationType: "CreationType option")

text \<open>Of the component maps, the converters modelled here read \<^verbatim>\<open>schemas\<close> only.\<close>

record ComponentsObject =
  schemas :: "ZodType \<rightharpoonup> SchemaComponent"

record SchemaState =
  components :: ComponentsObject
  type :: CreationType
  path :: "string list"
  effectType :: "CreationType option"

text \<open>An \<^verbatim>\<open>Error\<close> or a \<^verbatim>\<open>TypeError\<close>, with its message.\<close>

datatype Error = Error string | TypeError string

subsection \<open>The collaborators\<close>

text \<open>
  \<^verbatim>\<open>createSchemaObject\<close> (the dispatcher, \<^verbatim>\<open>create/schema/index\<close>),
  \<^verbatim>\<open>createManualTypeSchema\<close> (\<^verbatim>\<open>parsers/manual\<close>) and \<^verbatim>\<open>isOptionalSchema\<close>
  (\<^verbatim>\<open>parsers/optional\<close>) are imported by the converters and are parameters here.  The
  first two may throw and mutate the state they are given (the registry, the effect
  type): they return an error, or a fragment with the state they leave.
\<close>

record Collaborators =
  createSchemaObject ::
    "ZodType \<Rightarrow> SchemaState \<Rightarrow> string list \<Rightarrow> Error + (SchemaObject \<times> SchemaState)"
  createManualTypeSchema ::
    "ZodType \<Rightarrow> SchemaState \<Rightarrow> Error + (SchemaObject \<times> SchemaState)"
  isOptionalSchema :: "ZodType \<Rightarrow> SchemaState \<Rightarrow> bool"

text \<open>
  Modelled from the spec: \<^verbatim>\<open>isZodType\<close> (\<^verbatim>\<open>src/zodType\<close>, not among the sources) tests
  the kind tag of a node.
\<close>

definition isZodType :: "ZodHeap \<Rightarrow> ZodType \<Rightarrow> string \<Rightarrow> bool" where
  "isZodType h zodType typeName = (def_typeName (h zodType) = typeName)"

text \<open>
  Modelled from the spec: \<^verbatim>\<open>createComponentSchemaRef\<close> (\<^verbatim>\<open>src/create/components\<close>, not
  among the sources) forms the reference path, the fixed prefix of the component section
  followed by the assigned reference.
\<close>

definition createComponentSchemaRef :: "string \<Rightarrow> string" where
  "createComponentSchemaRef schemaRef = ''#/components/schemas/'' @ schemaRef"

section \<open>The object converter (parsers/object.ts)\<close>

record AdditionalPropertyOptions =
  unknownKeys :: "UnknownKeysParam option"
  catchAll :: ZodType

text \<open>
  \<^verbatim>\<open>mapProperties\<close> is a reduce over the entries from the empty object; every step calls
  the dispatcher on the state the step before left.  Its result is always an object.
\<close>

fun mapProperties_reduce ::
  "Collaborators \<Rightarrow> ZodRawShape \<Rightarrow> SchemaState \<Rightarrow> SchemaObject
    \<Rightarrow> Error + (SchemaObject \<times> SchemaState)" where
  "mapProperties_reduce env [] state acc = Inr (acc, state)"
| "mapProperties_reduce env ((key, zodSchema) # rest) state acc =
     (case createSchemaObject env zodSchema state [''property: '' @ key] of
        Inl e \<Rightarrow> Inl e
      | Inr (s, state') \<Rightarrow>
          mapProperties_reduce env rest state' (setProperty key (JObject s) acc))"

definition mapProperties ::
  "Collaborators \<Rightarrow> ZodRawShape \<Rightarrow> SchemaState
    \<Rightarrow> Error + (SchemaObject option \<times> SchemaState)" where
  "mapProperties env shape state =
     (case mapProperties_reduce env shape state [] of
        Inl e \<Rightarrow> Inl e
      | Inr (acc, state') \<Rightarrow> Inr (Some acc, state'))"

definition mapRequired ::
  "Collaborators \<Rightarrow> ZodRawShape \<Rightarrow> SchemaState \<Rightarrow> string list option" where
  "mapRequired env shape state =
     (let required =
            map fst (filter (\<lambda>(key, zodSchema). \<not> isOptionalSchema env zodSchema state) shape)
      in if length required = 0 then None else Some required)"

text \<open>
  \<^verbatim>\<open>...(c && { k: v })\<close> spreads the object when \<open>c\<close> is truthy and nothing otherwise.  An
  object and an array are truthy, also when empty; \<^verbatim>\<open>undefined\<close> is not.
\<close>

definition createObjectSchemaFromShape ::
  "Collaborators \<Rightarrow> ZodHeap \<Rightarrow> ZodRawShape \<Rightarrow> AdditionalPropertyOptions \<Rightarrow> SchemaState
    \<Rightarrow> Error + (SchemaObject \<times> SchemaState)" where
  "createObjectSchemaFromShape env h shape opts state =
     (case mapProperties env shape state of
        Inl e \<Rightarrow> Inl e
      | Inr (properties, state1) \<Rightarrow>
          let required = mapRequired env shape state1;
              obj1 = spread [(''type'', JString ''object'')]
                (case properties of None \<Rightarrow> [] | Some p \<Rightarrow> [(''properties'', JObject p)]);
              obj2 = spread obj1
                (case required of None \<Rightarrow> []
                 | Some r \<Rightarrow> [(''required'', JArray (map JString r))]);
              obj3 = spread obj2
                (if unknownKeys opts = Some strict
                 then [(''additionalProperties'', JBool False)] else [])
          in if \<not> isZodType h (catchAll opts) ''ZodNever''
             then (case createSchemaObject env (catchAll opts) state1
                          [''additional properties''] of
                     Inl e \<Rightarrow> Inl e
                   | Inr (s, state2) \<Rightarrow>
                       Inr (spread obj3 [(''additionalProperties'', JObject s)], state2))
             else Inr (obj3, state1))"

definition createDiffOpts ::
  "ZodHeap \<Rightarrow> AdditionalPropertyOptions \<Rightarrow> AdditionalPropertyOptions
    \<Rightarrow> AdditionalPropertyOptions option" where
  "createDiffOpts h baseOpts extendedOpts =
     (if unknownKeys baseOpts = Some strict \<or> \<not> isZodType h (catchAll baseOpts) ''ZodNever''
      then None
      else Some \<lparr>unknownKeys = unknownKeys extendedOpts, catchAll = catchAll extendedOpts\<rparr>)"

text \<open>
  The loop of \<^verbatim>\<open>createShapeDiff\<close> over the entries of the extended shape, with the
  accumulator \<open>acc\<close>; \<open>None\<close> is the \<^verbatim>\<open>null\<close> it returns at the first field for which
  \<^verbatim>\<open>baseObj[key]\<close> is neither the field's node nor \<^verbatim>\<open>undefined\<close>.  The values of a shape
  are nodes, never \<^verbatim>\<open>undefined\<close>.
\<close>

fun createShapeDiff_loop ::
  "ZodRawShape \<Rightarrow> ZodRawShape \<Rightarrow> ZodRawShape \<Rightarrow> ZodRawShape option" where
  "createShapeDiff_loop baseObj [] acc = Some acc"
| "createShapeDiff_loop baseObj ((key, val) # rest) acc =
     (let baseValue = getProperty baseObj key
      in if Value val = baseValue then createShapeDiff_loop baseObj rest acc
         else if baseValue = Undefined
           then createShapeDiff_loop baseObj rest (setProperty key val acc)
         else None)"

definition createShapeDiff :: "ZodRawShape \<Rightarrow> ZodRawShape \<Rightarrow> ZodRawShape option" where
  "createShapeDiff baseObj extendedObj = createShapeDiff_loop baseObj extendedObj []"

text \<open>
  \<^verbatim>\<open>component ?? baseZodObject._def.openapi?.ref\<close> is truthy when the registry has a
  record for the base, or else when the base carries a non-empty reference hint.
\<close>

definition truthy_ref :: "string option \<Rightarrow> bool" where
  "truthy_ref r = (case r of None \<Rightarrow> False | Some s \<Rightarrow> s \<noteq> [])"

text \<open>
  The first step of \<^verbatim>\<open>createExtendedSchema\<close>: a base that is registered, or carries a
  reference hint, is generated by the dispatcher before the registry is read again.  The
  fragment the dispatcher returns is dropped; the state it leaves is kept.
\<close>

definition generateBase ::
  "Collaborators \<Rightarrow> ZodHeap \<Rightarrow> ZodType \<Rightarrow> SchemaState \<Rightarrow> Error + SchemaState" where
  "generateBase env h baseZodObject state =
     (if schemas (components state) baseZodObject \<noteq> None
         \<or> truthy_ref (def_openapi_ref (h baseZodObject))
      then (case createSchemaObject env baseZodObject state [''extended schema''] of
              Inl e \<Rightarrow> Inl e
            | Inr (s, state') \<Rightarrow> Inr state')
      else Inr state)"

definition createExtendedSchema ::
  "Collaborators \<Rightarrow> ZodHeap \<Rightarrow> ZodType \<Rightarrow> ZodType option \<Rightarrow> SchemaState
    \<Rightarrow> Error + (SchemaObject option \<times> SchemaState)" where
  "createExtendedSchema env h zodObject baseZodObject state =
     (case baseZodObject of
        None \<Rightarrow> Inr (None, state)
      | Some base \<Rightarrow>
          (case generateBase env h base state of
             Inl e \<Rightarrow> Inl e
           | Inr state1 \<Rightarrow>
               (case schemas (components state1) base of
                  None \<Rightarrow> Inr (None, state1)
                | Some completeComponent \<Rightarrow>
                    (case createDiffOpts h
                            \<lparr>unknownKeys = Some (def_unknownKeys (h base)),
                             catchAll = def_catchall (h base)\<rparr>
                            \<lparr>unknownKeys = Some (def_unknownKeys (h zodObject)),
                             catchAll = def_catchall (h zodObject)\<rparr> of
                       None \<Rightarrow> Inr (None, state1)
                     | Some diffOpts \<Rightarrow>
                         (case createShapeDiff (def_shape (h base))
                                 (def_shape (h zodObject)) of
                            None \<Rightarrow> Inr (None, state1)
                          | Some diffShape \<Rightarrow>
                              (case createObjectSchemaFromShape env h diffShape diffOpts
                                      state1 of
                                 Inl e \<Rightarrow> Inl e
                               | Inr (s, state2) \<Rightarrow>
                                   Inr (Some (spread
                                     [(''allOf'', JArray [JObject [(''$ref'', JString
                                        (createComponentSchemaRef (ref completeComponent)))]])]
                                     s), state2)))))))"

definition createObjectSchema ::
  "Collaborators \<Rightarrow> ZodHeap \<Rightarrow> ZodType \<Rightarrow> SchemaState
    \<Rightarrow> Error + (SchemaObject \<times> SchemaState)" where
  "createObjectSchema env h zodObject state =
     (case createExtendedSchema env h zodObject (def_extends (h zodObject)) state of
        Inl e \<Rightarrow> Inl e
      | Inr (Some extendedSchema, state') \<Rightarrow> Inr (extendedSchema, state')
      | Inr (None, state') \<Rightarrow>
          createObjectSchemaFromShape env h (def_shape (h zodObject))
            \<lparr>unknownKeys = Some (def_unknownKeys (h zodObject)),
             catchAll = def_catchall (h zodObject)\<rparr> state')"

section \<open>The transform converter (parsers/transform.ts)\<close>

definition createTransformSchema ::
  "Collaborators \<Rightarrow> ZodHeap \<Rightarrow> ZodType \<Rightarrow> SchemaState
    \<Rightarrow> Error + (SchemaObject \<times> SchemaState)" where
  "createTransformSchema env h zodTransform state =
     (if def_openapi_effectType (h zodTransform) = Some Output
      then createManualTypeSchema env zodTransform state
      else if def_openapi_effectType (h zodTransform) = Some Input
      then createSchemaObject env (def_schema (h zodTransform)) state [''transform input'']
      else if type state = Output
      then createManualTypeSchema env zodTransform state
      else createSchemaObject env (def_schema (h zodTransform))
             (state\<lparr>effectType := Some Input\<rparr>) [''transform input''])"

text \<open>\<^verbatim>\<open>Array.prototype.join\<close> on a list of strings.\<close>

fun join :: "string \<Rightarrow> string list \<Rightarrow> string" where
  "join sep [] = []"
| "join sep [x] = x"
| "join sep (x # y # ys) = x @ sep @ join sep (y # ys)"

text \<open>
  \<^verbatim>\<open>throwTransformError\<close> always throws.  \<^verbatim>\<open>JSON.stringify\<close> of a node is the parameter
  \<open>stringify\<close>: the text the template literal gets, or the error \<^verbatim>\<open>JSON.stringify\<close> throws
  on a node it cannot serialize (one that holds a BigInt, or a cycle).  The template
  literal evaluates it first, so that error is then the one raised.
\<close>

definition throwTransformError ::
  "(ZodType \<Rightarrow> Error + string) \<Rightarrow> ZodType \<Rightarrow> SchemaState \<Rightarrow> Error + 'a" where
  "throwTransformError stringify zodType state =
     (case stringify zodType of
        Inl e \<Rightarrow> Inl e
      | Inr serialized \<Rightarrow>
          Inl (Error (serialized @ '' at '' @ join '' > '' (path state) @
            '' contains a transformation but is used in both an input and an output. This is likely a mistake. Set an `effectType`, wrap it in a ZodPipeline or assign it a manual type to resolve'')))"

section \<open>The discriminated union converter\<close>

text \<open>
  Modelled from the spec: \<^verbatim>\<open>createDiscriminatedUnionSchema\<close>
  (\<^verbatim>\<open>parsers/discriminatedUnion.ts\<close>; only its test is among the sources), after the
  steps of the spec's section 4.4.  (1) Every member is converted by the dispatcher, in
  declared order, each on the state the one before left.  (2) \<^verbatim>\<open>oneOf\<close> lists the member
  fragments.  (3) The mapping is built only if every member has a record in the registry
  after step 1.  (4) Every value of a member's discriminator field (the one value of a
  literal, each value of an enum) is mapped to the member's reference path; a later member
  does not overwrite the entry of an earlier one.  The breadcrumb of the i-th member,
  \<open>subpath i\<close>, is not fixed by the spec and is a parameter.
\<close>

fun createOptionSchemas ::
  "Collaborators \<Rightarrow> (nat \<Rightarrow> string list) \<Rightarrow> ZodType list \<Rightarrow> nat \<Rightarrow> SchemaState
    \<Rightarrow> Error + (SchemaObject list \<times> SchemaState)" where
  "createOptionSchemas env subpath [] i state = Inr ([], state)"
| "createOptionSchemas env subpath (option # rest) i state =
     (case createSchemaObject env option state (subpath i) of
        Inl e \<Rightarrow> Inl e
      | Inr (s, state') \<Rightarrow>
          (case createOptionSchemas env subpath rest (Suc i) state' of
             Inl e \<Rightarrow> Inl e
           | Inr (ss, state'') \<Rightarrow> Inr (s # ss, state'')))"

text \<open>
  Modelled from the spec: the values of a member's discriminator field (step 4; the code
  is in \<^verbatim>\<open>parsers/discriminatedUnion.ts\<close>, which is missing).  A member without the
  field contributes nothing.
\<close>

definition discriminatorValues :: "ZodHeap \<Rightarrow> string \<Rightarrow> ZodType \<Rightarrow> string list" where
  "discriminatorValues h discriminator option =
     (case map_of (def_shape (h option)) discriminator of
        None \<Rightarrow> []
      | Some field \<Rightarrow> def_values (h field))"

text \<open>
  Modelled from the spec: one value is mapped to the member's reference path, unless an
  earlier entry has the value already (step 4; \<^verbatim>\<open>parsers/discriminatedUnion.ts\<close> is
  missing).
\<close>

definition addMapping :: "string \<Rightarrow> SchemaObject \<Rightarrow> string \<Rightarrow> SchemaObject" where
  "addMapping target mapping v =
     (if map_of mapping v = None then mapping @ [(v, JString target)] else mapping)"

text \<open>
  Modelled from the spec: the mapping is built member by member, and abandoned at the
  first member without a record in the registry (steps 3 and 4;
  \<^verbatim>\<open>parsers/discriminatedUnion.ts\<close> is missing).
\<close>

fun mapDiscriminator_loop ::
  "ZodHeap \<Rightarrow> SchemaState \<Rightarrow> string \<Rightarrow> ZodType list \<Rightarrow> SchemaObject
    \<Rightarrow> SchemaObject option" where
  "mapDiscriminator_loop h state discriminator [] mapping = Some mapping"
| "mapDiscriminator_loop h state discriminator (option # rest) mapping =
     (case schemas (components state) option of
        None \<Rightarrow> None
      | Some component \<Rightarrow>
          mapDiscriminator_loop h state discriminator rest
            (foldl (addMapping (createComponentSchemaRef (ref component))) mapping
               (discriminatorValues h discriminator option)))"

text \<open>
  Modelled from the spec: the \<^verbatim>\<open>discriminator\<close> block, the property name and the mapping
  (\<^verbatim>\<open>parsers/discriminatedUnion.ts\<close> is missing).
\<close>

definition mapDiscriminator ::
  "ZodHeap \<Rightarrow> SchemaState \<Rightarrow> string \<Rightarrow> ZodType list \<Rightarrow> SchemaObject option" where
  "mapDiscriminator h state discriminator zodObjects =
     (case mapDiscriminator_loop h state discriminator zodObjects [] of
        None \<Rightarrow> None
      | Some mapping \<Rightarrow>
          Some [(''propertyName'', JString discriminator), (''mapping'', JObject mapping)])"

text \<open>
  Modelled from the spec: \<^verbatim>\<open>oneOf\<close> with the member fragments, and the \<^verbatim>\<open>discriminator\<close>
  block when there is one (\<^verbatim>\<open>parsers/discriminatedUnion.ts\<close> is missing).
\<close>

definition createDiscriminatedUnionSchema ::
  "Collaborators \<Rightarrow> ZodHeap \<Rightarrow> (nat \<Rightarrow> string list) \<Rightarrow> ZodType \<Rightarrow> SchemaState
    \<Rightarrow> Error + (SchemaObject \<times> SchemaState)" where
  "createDiscriminatedUnionSchema env h subpath zodDiscriminatedUnion state =
     (let options = def_options (h zodDiscriminatedUnion)
      in case createOptionSchemas env subpath options 0 state of
           Inl e \<Rightarrow> Inl e
         | Inr (fragments, state') \<Rightarrow>
             Inr (spread [(''oneOf'', JArray (map JObject fragments))]
                    (case mapDiscriminator h state'
                            (def_discriminator (h zodDiscriminatedUnion)) options of
                       None \<Rightarrow> []
                     | Some discriminator \<Rightarrow>
                         [(''discriminator'', JObject discriminator)]),
                  state'))"

section \<open>Example inputs\<close>

text \<open>
  A small schema graph, used to evaluate the converters on concrete inputs.  Node 0 is
  \<^verbatim>\<open>z.never()\<close>, the default catchall.  Nodes 1 and 2 are two distinct
  \<^verbatim>\<open>z.string()\<close> nodes; 5 is an optional string.  Node 3 is the object \<^verbatim>\<open>{a: 1}\<close> with
  the reference hint X; 4 extends it by \<^verbatim>\<open>b\<close>, reusing node 1 for \<^verbatim>\<open>a\<close>; 12 extends it
  too but redefines \<^verbatim>\<open>a\<close> with node 2; 13 is a strict object and 14 extends that.  Nodes
  6, 15 and 16 are transforms of node 1 with no declared effect type, with \<^verbatim>\<open>output\<close>
  and with \<^verbatim>\<open>input\<close>.  Node 11 is the discriminated union on \<^verbatim>\<open>type\<close> of the objects 9
  (literal \<^verbatim>\<open>c\<close>, node 7) and 10 (enum of \<^verbatim>\<open>d\<close> and \<^verbatim>\<open>e\<close>, node 8); 17 is the same
  union with the unregistered object 18 as a third member.  Node 20 extends 3 by a field
  named \<^verbatim>\<open>toString\<close>, reusing node 1 for \<^verbatim>\<open>a\<close>.
\<close>

definition ex_def :: "string \<Rightarrow> ZodDef" where
  "ex_def name =
     \<lparr>def_typeName = name, def_openapi_ref = None, def_openapi_effectType = None,
      def_shape = [], def_unknownKeys = strip, def_catchall = 0, def_extends = None,
      def_schema = 0, def_values = [], def_options = [], def_discriminator = []\<rparr>"

definition ex_heap :: ZodHeap where
  "ex_heap z =
     (if z = 0 then ex_def ''ZodNever''
      else if z = 1 then ex_def ''ZodString''
      else if z = 2 then ex_def ''ZodString''
      else if z = 3 then (ex_def ''ZodObject'')
             \<lparr>def_shape := [(''a'', 1)], def_openapi_ref := Some ''X''\<rparr>
      else if z = 4 then (ex_def ''ZodObject'')
             \<lparr>def_shape := [(''a'', 1), (''b'', 2)], def_extends := Some 3\<rparr>
      else if z = 5 then ex_def ''ZodOptional''
      else if z = 6 then (ex_def ''ZodEffects'')\<lparr>def_schema := 1\<rparr>
      else if z = 7 then (ex_def ''ZodLiteral'')\<lparr>def_values := [''c'']\<rparr>
      else if z = 8 then (ex_def ''ZodEnum'')\<lparr>def_values := [''d'', ''e'']\<rparr>
      else if z = 9 then (ex_def ''ZodObject'')
             \<lparr>def_shape := [(''type'', 7)], def_openapi_ref := Some ''c''\<rparr>
      else if z = 10 then (ex_def ''ZodObject'')
             \<lparr>def_shape := [(''type'', 8)], def_openapi_ref := Some ''d''\<rparr>
      else if z = 11 then (ex_def ''ZodDiscriminatedUnion'')
             \<lparr>def_options := [9, 10], def_discriminator := ''type''\<rparr>
      else if z = 12 then (ex_def ''ZodObject'')
             \<lparr>def_shape := [(''a'', 2), (''b'', 2)], def_extends := Some 3\<rparr>
      else if z = 13 then (ex_def ''ZodObject'')
             \<lparr>def_shape := [(''a'', 1)], def_unknownKeys := strict,
              def_openapi_ref := Some ''S''\<rparr>
      else if z = 14 then (ex_def ''ZodObject'')
             \<lparr>def_shape := [(''a'', 1), (''b'', 2)], def_extends := Some 13\<rparr>
      else if z = 15 then (ex_def ''ZodEffects'')
             \<lparr>def_schema := 1, def_openapi_effectType := Some Output\<rparr>
      else if z = 16 then (ex_def ''ZodEffects'')
             \<lparr>def_schema := 1, def_openapi_effectType := Some Input\<rparr>
      else if z = 17 then (ex_def ''ZodDiscriminatedUnion'')
             \<lparr>def_options := [9, 10, 18], def_discriminator := ''type''\<rparr>
      else if z = 18 then (ex_def ''ZodObject'')\<lparr>def_shape := [(''type'', 19)]\<rparr>
      else if z = 19 then (ex_def ''ZodLiteral'')\<lparr>def_values := [''f'']\<rparr>
      else if z = 20 then (ex_def ''ZodObject'')
             \<lparr>def_shape := [(''a'', 1), (''toString'', 2)], def_extends := Some 3\<rparr>
      else ex_def ''ZodAny'')"

text \<open>
  A dispatcher for the examples: a registered node becomes a reference to its component,
  any other node the string fragment; the state is left as it is.
\<close>

definition ex_createSchemaObject ::
  "ZodType \<Rightarrow> SchemaState \<Rightarrow> string list \<Rightarrow> Error + (SchemaObject \<times> SchemaState)" where
  "ex_createSchemaObject z state subpath =
     (case schemas (components state) z of
        Some c \<Rightarrow> Inr ([(''$ref'', JString (createComponentSchemaRef (ref c)))], state)
      | None \<Rightarrow> Inr ([(''type'', JString ''string'')], state))"

definition ex_createManualTypeSchema ::
  "ZodType \<Rightarrow> SchemaState \<Rightarrow> Error + (SchemaObject \<times> SchemaState)" where
  "ex_createManualTypeSchema z state = Inr ([(''type'', JString ''number'')], state)"

definition ex_env :: Collaborators where
  "ex_env =
     \<lparr>createSchemaObject = ex_createSchemaObject,
      createManualTypeSchema = ex_createManualTypeSchema,
      isOptionalSchema = (\<lambda>z state. isZodType ex_heap z ''ZodOptional'')\<rparr>"

definition ex_schemas :: "ZodType \<rightharpoonup> SchemaComponent" where
  "ex_schemas z =
     (if z = 3 then Some (CompleteSchemaComponent ''X'' [(''type'', JString ''object'')]
                            (Some Output))
      else if z = 9 then Some (ManualSchemaComponent ''c'')
      else if z = 10 then Some (ManualSchemaComponent ''d'')
      else if z = 13 then Some (CompleteSchemaComponent ''S'' [(''type'', JString ''object'')]
                            (Some Output))
      else None)"

definition ex_state :: SchemaState where
  "ex_state =
     \<lparr>components = \<lparr>schemas = ex_schemas\<rparr>, type = Output, path = [],
      effectType = None\<rparr>"

definition ex_input_state :: SchemaState where
  "ex_input_state =
     \<lparr>components = \<lparr>schemas = ex_schemas\<rparr>, type = Input, path = [''a'', ''b''],
      effectType = Some Output\<rparr>"

text \<open>A serializer for the examples, which fails on node 0 alone.\<close>

definition ex_stringify :: "ZodType \<Rightarrow> Error + string" where
  "ex_stringify z =
     (if z = 0 then Inl (TypeError ''Do not know how to serialize a BigInt'') else Inr ''{}'')"

text \<open>Two states are taken as equivalent when they differ in breadcrumbs and effect type only.\<close>

definition ex_equiv :: "SchemaState \<Rightarrow> SchemaState \<Rightarrow> bool" where
  "ex_equiv s s' = (components s = components s' \<and> type s = type s')"

definition ex_subpath :: "nat \<Rightarrow> string list" where
  "ex_subpath i = [''discriminated union option'']"

section \<open>Basic facts\<close>

lemma spread_Nil [simp]: "spread acc [] = acc"
  by (simp add: spread_def)

lemma spread_single [simp]: "spread acc [(k, v)] = AList.update k v acc"
  by (simp add: spread_def)

lemma getProperty_own [simp]:
  "map_of obj key = Some v \<Longrightarrow> getProperty obj key = Value v"
  by (simp add: getProperty_def)

lemma getProperty_Value_iff:
  "getProperty obj key = Value v \<longleftrightarrow> map_of obj key = Some v"
  by (simp add: getProperty_def split: option.splits)

lemma getProperty_Undefined_iff:
  "getProperty obj key = Undefined \<longleftrightarrow>
     map_of obj key = None \<and> key \<notin> set Object_prototype_names"
  by (simp add: getProperty_def split: option.splits)

lemma proto_inherited: "''__proto__'' \<in> set Object_prototype_names"
  by (simp add: Object_prototype_names_def)

lemma setProperty_plain:
  "key \<notin> set Object_prototype_names \<Longrightarrow> setProperty key v obj = AList.update key v obj"
  using proto_inherited by (auto simp: setProperty_def)

lemmas ex_simps =
  setProperty_def getProperty_def Object_prototype_names_def
  ex_heap_def ex_def_def ex_env_def ex_state_def ex_input_state_def ex_schemas_def
  ex_createSchemaObject_def ex_createManualTypeSchema_def isZodType_def
  createComponentSchemaRef_def

text \<open>
  The entries of the object \<^const>\<open>createObjectSchemaFromShape\<close> builds, in order:
  \<^verbatim>\<open>type\<close>, \<^verbatim>\<open>properties\<close>, \<^verbatim>\<open>required\<close> when there is a required field, then at
  most one \<^verbatim>\<open>additionalProperties\<close>.
\<close>

lemma createObjectSchemaFromShape_entries:
  "createObjectSchemaFromShape env h shape opts state =
     (case mapProperties_reduce env shape state [] of
        Inl e \<Rightarrow> Inl e
      | Inr (p, state1) \<Rightarrow>
          let front = (''type'', JString ''object'') # (''properties'', JObject p) #
                (case mapRequired env shape state1 of None \<Rightarrow> []
                 | Some r \<Rightarrow> [(''required'', JArray (map JString r))])
          in if isZodType h (catchAll opts) ''ZodNever''
             then Inr (front @ (if unknownKeys opts = Some strict
                                then [(''additionalProperties'', JBool False)] else []), state1)
             else (case createSchemaObject env (catchAll opts) state1
                          [''additional properties''] of
                     Inl e \<Rightarrow> Inl e
                   | Inr (s, state2) \<Rightarrow>
                       Inr (front @ [(''additionalProperties'', JObject s)], state2)))"
  by (simp add: createObjectSchemaFromShape_def mapProperties_def Let_def
      split: sum.splits option.splits prod.splits)

section \<open>The required list\<close>

lemma mapRequired_None_iff:
  "mapRequired env shape state = None \<longleftrightarrow>
     (\<forall>(key, zodSchema) \<in> set shape. isOptionalSchema env zodSchema state)"
  by (auto simp: mapRequired_def Let_def filter_empty_conv)

lemma mapRequired_Some:
  "mapRequired env shape state = Some required \<Longrightarrow>
     required =
       map fst (filter (\<lambda>(key, zodSchema). \<not> isOptionalSchema env zodSchema state) shape)"
  by (auto simp: mapRequired_def Let_def split: if_splits)

text \<open>
  C8.  \<^const>\<open>mapRequired\<close> is omitted (\<open>None\<close>) exactly when every field of the shape is
  optional under the state.  Otherwise the list is not empty, its members are exactly the
  names of the fields that are not optional under the state, and it is a subsequence of
  the shape's names: the names stand in the order of the shape, each once when the names
  of the shape are distinct, as the keys of an object are.
\<close>

theorem mapRequired_exact:
  "(case mapRequired env shape state of
      None \<Rightarrow> (\<forall>(key, zodSchema) \<in> set shape. isOptionalSchema env zodSchema state)
    | Some required \<Rightarrow>
        required \<noteq> []
        \<and> set required = {key. \<exists>zodSchema. (key, zodSchema) \<in> set shape
              \<and> \<not> isOptionalSchema env zodSchema state}
        \<and> subseq required (map fst shape)
        \<and> (distinct (map fst shape) \<longrightarrow> distinct required))"
proof (cases "mapRequired env shape state")
  case None
  then have "\<forall>(key, zodSchema) \<in> set shape. isOptionalSchema env zodSchema state"
    by (simp only: mapRequired_None_iff)
  with None show ?thesis by simp
next
  case (Some required)
  let ?kept = "filter (\<lambda>(key, zodSchema). \<not> isOptionalSchema env zodSchema state) shape"
  have req: "required = map fst ?kept"
    using Some by (rule mapRequired_Some)
  have nonempty: "required \<noteq> []"
    using Some by (auto simp: mapRequired_def Let_def split: if_splits)
  have members: "set required = {key. \<exists>zodSchema. (key, zodSchema) \<in> set shape
              \<and> \<not> isOptionalSchema env zodSchema state}"
    unfolding req by force
  have order: "subseq required (map fst shape)"
    unfolding req by (simp add: subseq_map)
  have once: "distinct (map fst shape) \<Longrightarrow> distinct required"
    unfolding req by (simp add: distinct_map_filter)
  from Some nonempty members order once show ?thesis by simp
qed

theorem mapRequired_exact_witness:
  "distinct (map fst [(''a'', 1::nat), (''o'', 5), (''b'', 2)])
   \<and> mapRequired ex_env [(''a'', 1), (''o'', 5), (''b'', 2)] ex_state = Some [''a'', ''b'']
   \<and> subseq [''a'', ''b''] (map fst [(''a'', 1::nat), (''o'', 5), (''b'', 2)])
   \<and> distinct [''a'', ''b'']
   \<and> mapRequired ex_env [(''o'', 5)] ex_state = None"
  using mapRequired_exact
      [where env = ex_env and shape = "[(''a'', 1), (''o'', 5), (''b'', 2)]"
         and state = ex_state]
    mapRequired_exact [where env = ex_env and shape = "[(''o'', 5)]" and state = ex_state]
  by (simp add: mapRequired_def ex_simps)

section \<open>The empty shape\<close>

text \<open>
  C1.  For the shape with no field, a strip object with the default catchall, whatever
  the collaborators and the state, \<^const>\<open>createObjectSchemaFromShape\<close> omits
  \<^verbatim>\<open>required\<close> but emits \<^verbatim>\<open>properties\<close> with the empty object: \<^const>\<open>mapProperties\<close> returns the accumulator of its reduce, an object
  also when nothing was added, and the guard \<^verbatim>\<open>properties &&\<close> sees an object, which
  is truthy.  \<^const>\<open>mapRequired\<close>, beside it, returns \<^verbatim>\<open>undefined\<close> for the empty list.
\<close>

theorem createObjectSchemaFromShape_empty_shape:
  "createObjectSchemaFromShape env ex_heap [] \<lparr>unknownKeys = Some strip, catchAll = 0\<rparr>
     state =
   Inr ([(''type'', JString ''object''), (''properties'', JObject [])], state)"
  by (simp add: createObjectSchemaFromShape_entries mapRequired_def ex_heap_def ex_def_def
      isZodType_def)

section \<open>Additional properties\<close>

text \<open>The converters raise no error of their own: an error is one the dispatcher raised.\<close>

lemma mapProperties_reduce_Inl:
  "mapProperties_reduce env shape state acc = Inl e \<Longrightarrow>
     \<exists>z s p. createSchemaObject env z s p = Inl e"
proof (induction shape arbitrary: state acc)
  case Nil
  then show ?case by simp
next
  case (Cons entry rest)
  obtain key zodSchema where entry: "entry = (key, zodSchema)"
    by (cases entry)
  show ?case
  proof (cases "createSchemaObject env zodSchema state [''property: '' @ key]")
    case (Inl e')
    with Cons.prems entry have "e' = e" by simp
    with Inl show ?thesis by blast
  next
    case (Inr r)
    with Cons.prems entry obtain acc' state' where
      "mapProperties_reduce env rest state' acc' = Inl e"
      by (cases r) auto
    then show ?thesis by (rule Cons.IH)
  qed
qed

lemma createObjectSchemaFromShape_Inl:
  assumes "createObjectSchemaFromShape env h shape opts state = Inl e"
  shows "\<exists>z s p. createSchemaObject env z s p = Inl e"
proof (cases "mapProperties_reduce env shape state []")
  case (Inl e')
  with assms have "e' = e"
    by (simp add: createObjectSchemaFromShape_entries)
  with Inl show ?thesis
    by (auto dest: mapProperties_reduce_Inl)
next
  case (Inr r)
  obtain p state1 where r: "r = (p, state1)" by (cases r)
  from assms Inr r
  have "createSchemaObject env (catchAll opts) state1 [''additional properties''] = Inl e"
    by (simp add: createObjectSchemaFromShape_entries Let_def
        split: if_splits sum.splits prod.splits)
  then show ?thesis by blast
qed

text \<open>
  C10, as amended.  Whenever \<^const>\<open>createObjectSchemaFromShape\<close> returns, every key of the
  object occurs once and \<^verbatim>\<open>type\<close> is \<^verbatim>\<open>object\<close>.  \<^verbatim>\<open>additionalProperties\<close> is
  \<^verbatim>\<open>false\<close> exactly when \<^verbatim>\<open>unknownKeys\<close> is strict and the catchall is ZodNever; it is
  the fragment the dispatcher returns for the catchall exactly when the catchall is not
  ZodNever (also for a strict object: the later spread replaces \<^verbatim>\<open>false\<close>); it is absent
  exactly when \<^verbatim>\<open>unknownKeys\<close> is not strict and the catchall is ZodNever.  When it does
  not return, the error is one the dispatcher raised.
\<close>

theorem createObjectSchemaFromShape_additionalProperties:
  "(case createObjectSchemaFromShape env h shape opts state of
      Inl e \<Rightarrow> (\<exists>z s p. createSchemaObject env z s p = Inl e)
    | Inr (obj, state') \<Rightarrow>
        distinct (map fst obj)
        \<and> map_of obj ''type'' = Some (JString ''object'')
        \<and> (map_of obj ''additionalProperties'' = Some (JBool False)
             \<longleftrightarrow> unknownKeys opts = Some strict \<and> isZodType h (catchAll opts) ''ZodNever'')
        \<and> ((\<exists>s state1.
               createSchemaObject env (catchAll opts) state1 [''additional properties'']
                 = Inr (s, state')
               \<and> map_of obj ''additionalProperties'' = Some (JObject s))
             \<longleftrightarrow> \<not> isZodType h (catchAll opts) ''ZodNever'')
        \<and> (map_of obj ''additionalProperties'' = None
             \<longleftrightarrow> unknownKeys opts \<noteq> Some strict \<and> isZodType h (catchAll opts) ''ZodNever''))"
proof (cases "createObjectSchemaFromShape env h shape opts state")
  case (Inl e)
  then show ?thesis
    by (simp add: createObjectSchemaFromShape_Inl)
next
  case (Inr r)
  obtain obj state' where r: "r = (obj, state')" by (cases r)
  from Inr r obtain p state1 where
    red: "mapProperties_reduce env shape state [] = Inr (p, state1)"
    by (auto simp: createObjectSchemaFromShape_entries split: sum.splits)
  define front where "front = (''type'', JString ''object'') # (''properties'', JObject p) #
      (case mapRequired env shape state1 of None \<Rightarrow> []
       | Some r \<Rightarrow> [(''required'', JArray (map JString r))])"
  have front_keys: "distinct (map fst front)" "''additionalProperties'' \<notin> fst ` set front"
    "map_of front ''type'' = Some (JString ''object'')"
    "map_of front ''additionalProperties'' = None"
    by (cases "mapRequired env shape state1"; simp add: front_def)+
  show ?thesis
  proof (cases "isZodType h (catchAll opts) ''ZodNever''")
    case True
    with Inr r red have obj: "obj = front @ (if unknownKeys opts = Some strict
        then [(''additionalProperties'', JBool False)] else [])" and "state' = state1"
      by (auto simp: createObjectSchemaFromShape_entries front_def)
    with True front_keys Inr r show ?thesis
      by (simp add: map_add_def)
  next
    case False
    with Inr r red obtain s where
      cso: "createSchemaObject env (catchAll opts) state1 [''additional properties'']
              = Inr (s, state')"
      and obj: "obj = front @ [(''additionalProperties'', JObject s)]"
      by (auto simp: createObjectSchemaFromShape_entries front_def split: sum.splits)
    have "map_of obj ''additionalProperties'' = Some (JObject s)"
      using obj front_keys by (simp add: map_add_def)
    with False front_keys Inr r obj cso show ?thesis
      by (auto simp: map_add_def)
  qed
qed

theorem createObjectSchemaFromShape_additionalProperties_witness:
  "createObjectSchemaFromShape ex_env ex_heap [(''a'', 1)]
     \<lparr>unknownKeys = Some strict, catchAll = 0\<rparr> ex_state =
   Inr ([(''type'', JString ''object''),
         (''properties'', JObject [(''a'', JObject [(''type'', JString ''string'')])]),
         (''required'', JArray [JString ''a'']),
         (''additionalProperties'', JBool False)], ex_state)
   \<and> isZodType ex_heap 0 ''ZodNever''"
  using createObjectSchemaFromShape_additionalProperties
      [where env = ex_env and h = ex_heap and shape = "[(''a'', 1)]"
         and opts = "\<lparr>unknownKeys = Some strict, catchAll = 0\<rparr>" and state = ex_state]
  by (simp add: createObjectSchemaFromShape_entries mapRequired_def ex_simps)

text \<open>
  The claim as stated fails for a strict object with a catchall, such as
  \<^verbatim>\<open>z.object({a}).strict().catchall(z.string())\<close>: \<^verbatim>\<open>additionalProperties\<close> is the
  catchall's fragment, not \<^verbatim>\<open>false\<close>.
\<close>

theorem createObjectSchemaFromShape_strict_catchall_counterexample:
  "createObjectSchemaFromShape ex_env ex_heap [(''a'', 1)]
     \<lparr>unknownKeys = Some strict, catchAll = 2\<rparr> ex_state =
   Inr ([(''type'', JString ''object''),
         (''properties'', JObject [(''a'', JObject [(''type'', JString ''string'')])]),
         (''required'', JArray [JString ''a'']),
         (''additionalProperties'', JObject [(''type'', JString ''string'')])], ex_state)"
  by (simp add: createObjectSchemaFromShape_entries mapRequired_def ex_simps)

section \<open>Transforms\<close>

text \<open>
  C3.  \<^const>\<open>createTransformSchema\<close> resolves a transform node in this order, the first
  match winning: a declared effect type \<^verbatim>\<open>output\<close> gives the manual type; a declared
  \<^verbatim>\<open>input\<close> gives the dispatcher's fragment for the wrapped schema, on the state as it
  is; with no declared effect type, the state's type \<^verbatim>\<open>output\<close> gives the manual type,
  and otherwise \<^verbatim>\<open>effectType\<close> is set to \<^verbatim>\<open>input\<close> on the state and the dispatcher is
  called for the wrapped schema on that state.
\<close>

theorem createTransformSchema_resolution_order:
  "(def_openapi_effectType (h zodTransform) = Some Output \<longrightarrow>
      createTransformSchema env h zodTransform state
        = createManualTypeSchema env zodTransform state)
   \<and> (def_openapi_effectType (h zodTransform) = Some Input \<longrightarrow>
      createTransformSchema env h zodTransform state
        = createSchemaObject env (def_schema (h zodTransform)) state [''transform input''])
   \<and> (def_openapi_effectType (h zodTransform) = None \<and> type state = Output \<longrightarrow>
      createTransformSchema env h zodTransform state
        = createManualTypeSchema env zodTransform state)
   \<and> (def_openapi_effectType (h zodTransform) = None \<and> type state = Input \<longrightarrow>
      createTransformSchema env h zodTransform state
        = createSchemaObject env (def_schema (h zodTransform))
            (state\<lparr>effectType := Some Input\<rparr>) [''transform input''])"
proof (cases "def_openapi_effectType (h zodTransform)")
  case None
  then show ?thesis
    by (cases "type state") (simp_all add: createTransformSchema_def)
next
  case (Some declared)
  then show ?thesis
    by (cases declared) (simp_all add: createTransformSchema_def)
qed

theorem createTransformSchema_resolution_order_witness:
  "createTransformSchema ex_env ex_heap 15 ex_input_state
     = Inr ([(''type'', JString ''number'')], ex_input_state)
   \<and> createTransformSchema ex_env ex_heap 16 ex_state
     = Inr ([(''type'', JString ''string'')], ex_state)
   \<and> createTransformSchema ex_env ex_heap 6 ex_state
     = Inr ([(''type'', JString ''number'')], ex_state)
   \<and> createTransformSchema ex_env ex_heap 6 (ex_input_state\<lparr>effectType := None\<rparr>)
     = Inr ([(''type'', JString ''string'')], ex_input_state\<lparr>effectType := Some Input\<rparr>)"
  using createTransformSchema_resolution_order
      [where env = ex_env and h = ex_heap and zodTransform = 15 and state = ex_input_state]
    createTransformSchema_resolution_order
      [where env = ex_env and h = ex_heap and zodTransform = 16 and state = ex_state]
    createTransformSchema_resolution_order
      [where env = ex_env and h = ex_heap and zodTransform = 6 and state = ex_state]
    createTransformSchema_resolution_order
      [where env = ex_env and h = ex_heap and zodTransform = 6
         and state = "ex_input_state\<lparr>effectType := None\<rparr>"]
  by (simp add: ex_simps)

text \<open>
  C2, as amended.  \<^const>\<open>createTransformSchema\<close> checks no conflict.  With no declared
  effect type and a state whose type is not \<^verbatim>\<open>output\<close>, it sets \<^verbatim>\<open>effectType\<close> to
  \<^verbatim>\<open>input\<close> whatever was recorded before, and calls the dispatcher on that state.  With
  a declared effect type, or a state of type \<^verbatim>\<open>output\<close>, it hands the state on as it is,
  to the manual type resolver or to the dispatcher.  It raises no error of its own: an
  error is one a collaborator raised.  \<^const>\<open>throwTransformError\<close> always raises: the
  error of \<^verbatim>\<open>JSON.stringify\<close> when the node cannot be serialized, and otherwise the
  \<^verbatim>\<open>Error\<close> whose message is the serialized node, \<^verbatim>\<open> at \<close>, the breadcrumbs joined by
  \<^verbatim>\<open> > \<close>, and the fixed explanation, nothing more.
\<close>

theorem createTransformSchema_effectType:
  "(def_openapi_effectType (h zodTransform) = None \<and> type state \<noteq> Output \<longrightarrow>
      createTransformSchema env h zodTransform state
        = createSchemaObject env (def_schema (h zodTransform))
            (state\<lparr>effectType := Some Input\<rparr>) [''transform input''])
   \<and> (def_openapi_effectType (h zodTransform) \<noteq> None \<or> type state = Output \<longrightarrow>
      createTransformSchema env h zodTransform state
        \<in> {createManualTypeSchema env zodTransform state,
            createSchemaObject env (def_schema (h zodTransform)) state [''transform input'']})
   \<and> (\<forall>e. createTransformSchema env h zodTransform state = Inl e \<longrightarrow>
         (\<exists>z s p. createSchemaObject env z s p = Inl e)
         \<or> (\<exists>z s. createManualTypeSchema env z s = Inl e))
   \<and> (throwTransformError stringify zodType state :: Error + unit) =
       (case stringify zodType of
          Inl e \<Rightarrow> Inl e
        | Inr serialized \<Rightarrow>
            Inl (Error (serialized @ '' at '' @ join '' > '' (path state) @
              '' contains a transformation but is used in both an input and an output. This is likely a mistake. Set an `effectType`, wrap it in a ZodPipeline or assign it a manual type to resolve'')))
   \<and> (\<forall>r. (throwTransformError stringify zodType state :: Error + unit) \<noteq> Inr r)"
proof -
  have overwrite: "def_openapi_effectType (h zodTransform) = None \<and> type state \<noteq> Output \<longrightarrow>
      createTransformSchema env h zodTransform state
        = createSchemaObject env (def_schema (h zodTransform))
            (state\<lparr>effectType := Some Input\<rparr>) [''transform input'']"
    by (simp add: createTransformSchema_def)
  have unchanged: "def_openapi_effectType (h zodTransform) \<noteq> None \<or> type state = Output \<longrightarrow>
      createTransformSchema env h zodTransform state
        \<in> {createManualTypeSchema env zodTransform state,
            createSchemaObject env (def_schema (h zodTransform)) state [''transform input'']}"
  proof (cases "def_openapi_effectType (h zodTransform)")
    case None
    then show ?thesis by (simp add: createTransformSchema_def)
  next
    case (Some declared)
    then show ?thesis by (cases declared) (simp_all add: createTransformSchema_def)
  qed
  have errors: "\<forall>e. createTransformSchema env h zodTransform state = Inl e \<longrightarrow>
         (\<exists>z s p. createSchemaObject env z s p = Inl e)
         \<or> (\<exists>z s. createManualTypeSchema env z s = Inl e)"
    unfolding createTransformSchema_def by (metis (full_types))
  have message: "(throwTransformError stringify zodType state :: Error + unit) =
       (case stringify zodType of
          Inl e \<Rightarrow> Inl e
        | Inr serialized \<Rightarrow>
            Inl (Error (serialized @ '' at '' @ join '' > '' (path state) @
              '' contains a transformation but is used in both an input and an output. This is likely a mistake. Set an `effectType`, wrap it in a ZodPipeline or assign it a manual type to resolve'')))"
    by (simp add: throwTransformError_def)
  have raises: "\<forall>r. (throwTransformError stringify zodType state :: Error + unit) \<noteq> Inr r"
    by (simp add: throwTransformError_def split: sum.splits)
  from overwrite unchanged errors message raises show ?thesis by blast
qed

theorem createTransformSchema_effectType_witness:
  "def_openapi_effectType (ex_heap 6) = None
   \<and> type ex_input_state \<noteq> Output
   \<and> createTransformSchema ex_env ex_heap 6 ex_input_state
     = Inr ([(''type'', JString ''string'')], ex_input_state\<lparr>effectType := Some Input\<rparr>)
   \<and> type ex_state = Output
   \<and> createTransformSchema ex_env ex_heap 6 ex_state
     = Inr ([(''type'', JString ''number'')], ex_state)
   \<and> (throwTransformError ex_stringify 6 ex_input_state :: Error + unit)
     = Inl (Error ''{} at a > b contains a transformation but is used in both an input and an output. This is likely a mistake. Set an `effectType`, wrap it in a ZodPipeline or assign it a manual type to resolve'')
   \<and> (throwTransformError ex_stringify 0 ex_input_state :: Error + unit)
     = Inl (TypeError ''Do not know how to serialize a BigInt'')"
proof -
  have undeclared: "def_openapi_effectType (ex_heap 6) = None"
    by (simp add: ex_simps)
  have ambient: "type ex_input_state \<noteq> Output" "type ex_state = Output"
    by (simp_all add: ex_simps)
  have inner: "createSchemaObject ex_env (def_schema (ex_heap 6))
      (ex_input_state\<lparr>effectType := Some Input\<rparr>) [''transform input'']
     = Inr ([(''type'', JString ''string'')], ex_input_state\<lparr>effectType := Some Input\<rparr>)"
    by (simp add: ex_simps)
  have manual: "createManualTypeSchema ex_env 6 ex_state
     = Inr ([(''type'', JString ''number'')], ex_state)"
    by (simp add: ex_simps)
  have other: "createSchemaObject ex_env (def_schema (ex_heap 6)) ex_state [''transform input'']
     = Inr ([(''type'', JString ''string'')], ex_state)"
    by (simp add: ex_simps)
  have serialized: "ex_stringify 6 = Inr ''{}''"
    "ex_stringify 0 = Inl (TypeError ''Do not know how to serialize a BigInt'')"
    by (simp_all add: ex_stringify_def)
  have crumbs: "join '' > '' (path ex_input_state) = ''a > b''"
    by (simp add: ex_simps)
  note at_input = createTransformSchema_effectType
      [where env = ex_env and h = ex_heap and zodTransform = 6 and state = ex_input_state
         and stringify = ex_stringify and zodType = 6]
  note at_never = createTransformSchema_effectType
      [where state = ex_input_state and stringify = ex_stringify and zodType = 0]
  from at_input [THEN conjunct1] undeclared ambient(1)
  have first: "createTransformSchema ex_env ex_heap 6 ex_input_state
     = Inr ([(''type'', JString ''string'')], ex_input_state\<lparr>effectType := Some Input\<rparr>)"
    by (simp add: inner)
  have second: "createTransformSchema ex_env ex_heap 6 ex_state
     = Inr ([(''type'', JString ''number'')], ex_state)"
    by (simp add: createTransformSchema_def undeclared ambient manual)
  from at_input [THEN conjunct2, THEN conjunct2, THEN conjunct2, THEN conjunct1]
  have third: "(throwTransformError ex_stringify 6 ex_input_state :: Error + unit)
     = Inl (Error ''{} at a > b contains a transformation but is used in both an input and an output. This is likely a mistake. Set an `effectType`, wrap it in a ZodPipeline or assign it a manual type to resolve'')"
    by (simp add: serialized crumbs)
  from at_never [THEN conjunct2, THEN conjunct2, THEN conjunct2, THEN conjunct1]
  have fourth: "(throwTransformError ex_stringify 0 ex_input_state :: Error + unit)
     = Inl (TypeError ''Do not know how to serialize a BigInt'')"
    by (simp add: serialized)
  from undeclared ambient first second third fourth show ?thesis by simp
qed

text \<open>
  The claim as stated fails on a state of type \<^verbatim>\<open>input\<close> that records the effect type
  \<^verbatim>\<open>output\<close>: the transform node 6 declares no effect type, and the recorded
  \<^verbatim>\<open>output\<close> is overwritten with \<^verbatim>\<open>input\<close>, no error raised.
\<close>

theorem createTransformSchema_overwrites_counterexample:
  "effectType ex_input_state = Some Output
   \<and> createTransformSchema ex_env ex_heap 6 ex_input_state
     = Inr ([(''type'', JString ''string'')], ex_input_state\<lparr>effectType := Some Input\<rparr>)"
  by (simp add: createTransformSchema_def ex_simps)

section \<open>Extension of a registered base\<close>

lemma update_fresh:
  "k \<notin> fst ` set al \<Longrightarrow> AList.update k v al = al @ [(k, v)]"
  by (induction al) auto

lemma spread_disjoint:
  "distinct (map fst obj) \<Longrightarrow> fst ` set acc \<inter> fst ` set obj = {} \<Longrightarrow>
     spread acc obj = acc @ obj"
proof (induction obj arbitrary: acc)
  case Nil
  then show ?case by simp
next
  case (Cons entry obj)
  obtain k v where entry: "entry = (k, v)" by (cases entry)
  from Cons.prems entry have fresh: "k \<notin> fst ` set acc" by auto
  have step: "spread acc (entry # obj) = spread (AList.update k v acc) obj"
    by (simp add: spread_def entry)
  from Cons.prems entry have "fst ` set (acc @ [(k, v)]) \<inter> fst ` set obj = {}"
    by auto
  with Cons.IH [of "acc @ [(k, v)]"] Cons.prems
  have "spread (acc @ [(k, v)]) obj = (acc @ [(k, v)]) @ obj" by simp
  with step fresh entry show ?case by (simp add: update_fresh)
qed

lemma createObjectSchemaFromShape_keys:
  assumes "createObjectSchemaFromShape env h shape opts state = Inr (obj, state')"
  shows "distinct (map fst obj)"
    and "fst ` set obj \<subseteq> {''type'', ''properties'', ''required'', ''additionalProperties''}"
proof -
  from assms obtain p state1 where
    red: "mapProperties_reduce env shape state [] = Inr (p, state1)"
    by (auto simp: createObjectSchemaFromShape_entries split: sum.splits)
  have "distinct (map fst obj) \<and>
      fst ` set obj \<subseteq> {''type'', ''properties'', ''required'', ''additionalProperties''}"
    using assms red
    by (cases "mapRequired env shape state1")
      (auto simp: createObjectSchemaFromShape_entries Let_def split: if_splits sum.splits)
  then show "distinct (map fst obj)"
    and "fst ` set obj \<subseteq> {''type'', ''properties'', ''required'', ''additionalProperties''}"
    by simp_all
qed

lemma createShapeDiff_loop_conflict:
  "map_of baseObj key = Some b \<Longrightarrow> (key, v) \<in> set extendedObj \<Longrightarrow> v \<noteq> b \<Longrightarrow>
     createShapeDiff_loop baseObj extendedObj acc = None"
proof (induction extendedObj arbitrary: acc)
  case Nil
  then show ?case by simp
next
  case (Cons entry rest)
  obtain k val where entry: "entry = (k, val)" by (cases entry)
  show ?case
  proof (cases "(key, v) = (k, val)")
    case True
    with Cons.prems have "getProperty baseObj k = Value b" and "val \<noteq> b"
      by simp_all
    with entry show ?thesis by (simp add: Let_def)
  next
    case False
    with Cons.prems entry have "(key, v) \<in> set rest" by auto
    with Cons.IH Cons.prems have "\<And>acc'. createShapeDiff_loop baseObj rest acc' = None"
      by blast
    with entry show ?thesis by (simp add: Let_def)
  qed
qed

text \<open>
  A field named as \<^verbatim>\<open>Object.prototype\<close> names a property, and absent from the base, ends
  the diff too: the read finds the inherited property.
\<close>

lemma createShapeDiff_loop_inherited:
  "(key, v) \<in> set extendedObj \<Longrightarrow> map_of baseObj key = None \<Longrightarrow>
     key \<in> set Object_prototype_names \<Longrightarrow>
     createShapeDiff_loop baseObj extendedObj acc = None"
proof (induction extendedObj arbitrary: acc)
  case Nil
  then show ?case by simp
next
  case (Cons entry rest)
  obtain k val where entry: "entry = (k, val)" by (cases entry)
  show ?case
  proof (cases "key = k")
    case True
    with Cons.prems have "getProperty baseObj k = Inherited"
      by (simp add: getProperty_def)
    with entry show ?thesis by (simp add: Let_def)
  next
    case False
    with Cons.prems entry have "(key, v) \<in> set rest" by auto
    with Cons.IH Cons.prems have "\<And>acc'. createShapeDiff_loop baseObj rest acc' = None"
      by blast
    with entry show ?thesis by (simp add: Let_def)
  qed
qed

lemma createShapeDiff_loop_clean:
  assumes "\<forall>key b v. map_of baseObj key = Some b \<and> (key, v) \<in> set extendedObj \<longrightarrow> v = b"
    and "\<forall>key v. (key, v) \<in> set extendedObj \<and> map_of baseObj key = None
          \<longrightarrow> key \<notin> set Object_prototype_names"
    and "distinct (map fst extendedObj)"
    and "fst ` set acc \<inter> fst ` set extendedObj = {}"
  shows "createShapeDiff_loop baseObj extendedObj acc =
     Some (acc @ filter (\<lambda>(key, v). map_of baseObj key = None) extendedObj)"
  using assms
proof (induction extendedObj arbitrary: acc)
  case Nil
  then show ?case by simp
next
  case (Cons entry rest)
  obtain k val where entry: "entry = (k, val)" by (cases entry)
  from Cons.prems(1)
  have agree: "\<forall>key b v. map_of baseObj key = Some b \<and> (key, v) \<in> set rest \<longrightarrow> v = b"
    by auto
  from Cons.prems(2)
  have own: "\<forall>key v. (key, v) \<in> set rest \<and> map_of baseObj key = None
          \<longrightarrow> key \<notin> set Object_prototype_names"
    by auto
  from Cons.prems(3) have dist: "distinct (map fst rest)" by simp
  show ?case
  proof (cases "map_of baseObj k")
    case None
    from Cons.prems(2) entry None have plain: "k \<notin> set Object_prototype_names"
      by auto
    with None have undefined: "getProperty baseObj k = Undefined"
      by (simp add: getProperty_Undefined_iff)
    from Cons.prems entry have fresh: "k \<notin> fst ` set acc" by auto
    from Cons.prems entry have "fst ` set (acc @ [(k, val)]) \<inter> fst ` set rest = {}"
      by auto
    with Cons.IH [OF agree own dist, of "acc @ [(k, val)]"]
    have "createShapeDiff_loop baseObj rest (acc @ [(k, val)]) =
        Some ((acc @ [(k, val)]) @ filter (\<lambda>(key, v). map_of baseObj key = None) rest)"
      by simp
    with None entry fresh plain undefined show ?thesis
      by (simp add: Let_def update_fresh setProperty_plain)
  next
    case (Some b)
    with Cons.prems(1) entry have same: "val = b" by auto
    from Cons.prems entry have "fst ` set acc \<inter> fst ` set rest = {}" by auto
    with Cons.IH [OF agree own dist, of acc]
    have "createShapeDiff_loop baseObj rest acc =
        Some (acc @ filter (\<lambda>(key, v). map_of baseObj key = None) rest)"
      by simp
    with Some same entry show ?thesis by (simp add: Let_def)
  qed
qed

lemma createShapeDiff_clean:
  assumes "\<forall>key b v. map_of baseObj key = Some b \<and> (key, v) \<in> set extendedObj \<longrightarrow> v = b"
    and "\<forall>key v. (key, v) \<in> set extendedObj \<and> map_of baseObj key = None
          \<longrightarrow> key \<notin> set Object_prototype_names"
    and "distinct (map fst extendedObj)"
  shows "createShapeDiff baseObj extendedObj =
     Some (filter (\<lambda>(key, v). map_of baseObj key = None) extendedObj)"
  using createShapeDiff_loop_clean [OF assms, of "[]"] by (simp add: createShapeDiff_def)

lemma createShapeDiff_conflict:
  "map_of baseObj key = Some b \<Longrightarrow> (key, v) \<in> set extendedObj \<Longrightarrow> v \<noteq> b \<Longrightarrow>
     createShapeDiff baseObj extendedObj = None"
  by (simp add: createShapeDiff_def createShapeDiff_loop_conflict)

lemma generateBase_registered:
  "schemas (components state) base \<noteq> None \<Longrightarrow>
     createSchemaObject env base state [''extended schema''] = Inr (fragment, state1) \<Longrightarrow>
     generateBase env h base state = Inr state1"
  by (simp add: generateBase_def)

lemma createExtendedSchema_no_diff:
  assumes "createDiffOpts h
        \<lparr>unknownKeys = Some (def_unknownKeys (h base)), catchAll = def_catchall (h base)\<rparr>
        \<lparr>unknownKeys = Some (def_unknownKeys (h zodObject)),
         catchAll = def_catchall (h zodObject)\<rparr> = None
      \<or> createShapeDiff (def_shape (h base)) (def_shape (h zodObject)) = None"
  shows "createExtendedSchema env h zodObject (Some base) state =
     (case generateBase env h base state of
        Inl e \<Rightarrow> Inl e
      | Inr state1 \<Rightarrow> Inr (None, state1))"
  using assms
  by (auto simp: createExtendedSchema_def split: sum.splits option.splits)

lemma createObjectSchema_fallback:
  assumes "def_extends (h zodObject) = Some base"
    and "createExtendedSchema env h zodObject (Some base) state =
     (case generateBase env h base state of
        Inl e \<Rightarrow> Inl e
      | Inr state1 \<Rightarrow> Inr (None, state1))"
  shows "createObjectSchema env h zodObject state =
     (case generateBase env h base state of
        Inl e \<Rightarrow> Inl e
      | Inr state1 \<Rightarrow>
          createObjectSchemaFromShape env h (def_shape (h zodObject))
            \<lparr>unknownKeys = Some (def_unknownKeys (h zodObject)),
             catchAll = def_catchall (h zodObject)\<rparr> state1)"
  using assms by (simp add: createObjectSchema_def split: sum.splits)

text \<open>
  C4.  The claim fails for a candidate that adds a field named as \<^verbatim>\<open>Object.prototype\<close>
  names a property.  The base 3 is registered as a complete component with reference X, the
  dispatcher returns for it and leaves its record, it is neither strict nor has a catchall,
  and the one field the candidate 20 shares with it, \<^verbatim>\<open>a\<close>, is the same node.  The
  candidate's other field is named \<^verbatim>\<open>toString\<close>: the base does not have it, but
  \<^verbatim>\<open>baseObj[key]\<close> reads the inherited function, which is neither the candidate's node nor
  \<^verbatim>\<open>undefined\<close>.  So \<^const>\<open>createShapeDiff\<close> returns \<^verbatim>\<open>null\<close>,
  \<^const>\<open>createExtendedSchema\<close> returns \<^verbatim>\<open>undefined\<close> where the claim has \<^verbatim>\<open>allOf\<close> with
  the delta \<^verbatim>\<open>toString\<close>, and \<^const>\<open>createObjectSchema\<close> generates both fields inline.
\<close>

theorem createExtendedSchema_inherited_name:
  "schemas (components ex_state) 3
     = Some (CompleteSchemaComponent ''X'' [(''type'', JString ''object'')] (Some Output))
   \<and> createSchemaObject ex_env 3 ex_state [''extended schema'']
     = Inr ([(''$ref'', JString ''#/components/schemas/X'')], ex_state)
   \<and> def_unknownKeys (ex_heap 3) \<noteq> strict
   \<and> isZodType ex_heap (def_catchall (ex_heap 3)) ''ZodNever''
   \<and> def_shape (ex_heap 3) = [(''a'', 1)]
   \<and> def_shape (ex_heap 20) = [(''a'', 1), (''toString'', 2)]
   \<and> def_extends (ex_heap 20) = Some 3
   \<and> getProperty (def_shape (ex_heap 3)) ''toString'' = Inherited
   \<and> createShapeDiff (def_shape (ex_heap 3)) (def_shape (ex_heap 20)) = None
   \<and> createExtendedSchema ex_env ex_heap 20 (Some 3) ex_state = Inr (None, ex_state)
   \<and> createObjectSchema ex_env ex_heap 20 ex_state =
      Inr ([(''type'', JString ''object''),
            (''properties'',
               JObject [(''a'', JObject [(''type'', JString ''string'')]),
                        (''toString'', JObject [(''type'', JString ''string'')])]),
            (''required'', JArray [JString ''a'', JString ''toString''])], ex_state)"
proof -
  have registered: "schemas (components ex_state) 3
     = Some (CompleteSchemaComponent ''X'' [(''type'', JString ''object'')] (Some Output))"
    by (simp add: ex_simps)
  have generated: "createSchemaObject ex_env 3 ex_state [''extended schema'']
     = Inr ([(''$ref'', JString ''#/components/schemas/X'')], ex_state)"
    by (simp add: ex_simps)
  have permissive: "def_unknownKeys (ex_heap 3) \<noteq> strict"
    "isZodType ex_heap (def_catchall (ex_heap 3)) ''ZodNever''"
    by (simp_all add: ex_simps)
  have shapes: "def_shape (ex_heap 3) = [(''a'', 1)]"
    "def_shape (ex_heap 20) = [(''a'', 1), (''toString'', 2)]"
    by (simp_all add: ex_simps)
  have extends: "def_extends (ex_heap 20) = Some 3"
    by (simp add: ex_simps)
  have inherited: "getProperty (def_shape (ex_heap 3)) ''toString'' = Inherited"
    unfolding shapes by (simp add: getProperty_def Object_prototype_names_def)
  have diff: "createShapeDiff (def_shape (ex_heap 3)) (def_shape (ex_heap 20)) = None"
    unfolding shapes
    by (simp add: createShapeDiff_def getProperty_def Object_prototype_names_def)
  have base: "generateBase ex_env ex_heap 3 ex_state = Inr ex_state"
    using registered generated by (simp add: generateBase_registered)
  have fallback: "createExtendedSchema ex_env ex_heap 20 (Some 3) ex_state
     = Inr (None, ex_state)"
    using diff base by (simp add: createExtendedSchema_no_diff)
  have inline: "createObjectSchemaFromShape ex_env ex_heap (def_shape (ex_heap 20))
      \<lparr>unknownKeys = Some (def_unknownKeys (ex_heap 20)),
       catchAll = def_catchall (ex_heap 20)\<rparr> ex_state =
      Inr ([(''type'', JString ''object''),
            (''properties'',
               JObject [(''a'', JObject [(''type'', JString ''string'')]),
                        (''toString'', JObject [(''type'', JString ''string'')])]),
            (''required'', JArray [JString ''a'', JString ''toString''])], ex_state)"
    by (simp add: createObjectSchemaFromShape_entries mapRequired_def ex_simps)
  have whole: "createObjectSchema ex_env ex_heap 20 ex_state =
      Inr ([(''type'', JString ''object''),
            (''properties'',
               JObject [(''a'', JObject [(''type'', JString ''string'')]),
                        (''toString'', JObject [(''type'', JString ''string'')])]),
            (''required'', JArray [JString ''a'', JString ''toString''])], ex_state)"
    using extends fallback inline by (simp add: createObjectSchema_def)
  from registered generated permissive shapes extends inherited diff fallback whole
  show ?thesis by simp
qed

text \<open>
  For a candidate whose added fields have no such name, the extension is what the claim
  says.  Let the base be registered as a complete component with reference X, let the
  dispatcher, called for the base as \<^const>\<open>createExtendedSchema\<close> does first, return and
  leave the base's record as it is, let the base be neither strict nor have a catchall
  other than ZodNever, let every field of the candidate that the base has too be the same
  node, and let no field the base lacks be named as \<^verbatim>\<open>Object.prototype\<close> names a
  property.  Then \<^const>\<open>createExtendedSchema\<close> returns the object whose first entry is
  \<^verbatim>\<open>allOf\<close> with the one reference to X, followed by the entries of S, the object
  \<^const>\<open>createObjectSchemaFromShape\<close> builds from the candidate's fields that the base
  does not have, in the candidate's order, with the candidate's own options; an error
  building S is passed on.  The names of the candidate's shape are distinct, as the keys
  of an object are.
\<close>

lemma createExtendedSchema_allOf:
  assumes registered:
      "schemas (components state) base = Some (CompleteSchemaComponent X schemaObj creation)"
    and generated:
      "createSchemaObject env base state [''extended schema''] = Inr (fragment, state')"
    and kept: "schemas (components state') base = schemas (components state) base"
    and not_strict: "def_unknownKeys (h base) \<noteq> strict"
    and never: "isZodType h (def_catchall (h base)) ''ZodNever''"
    and identical:
      "\<forall>key b v. map_of (def_shape (h base)) key = Some b
          \<and> (key, v) \<in> set (def_shape (h zodObject)) \<longrightarrow> v = b"
    and plain:
      "\<forall>key v. (key, v) \<in> set (def_shape (h zodObject))
          \<and> map_of (def_shape (h base)) key = None
          \<longrightarrow> key \<notin> set Object_prototype_names"
    and keys: "distinct (map fst (def_shape (h zodObject)))"
  shows "createExtendedSchema env h zodObject (Some base) state =
     (case createObjectSchemaFromShape env h
             (filter (\<lambda>(key, v). map_of (def_shape (h base)) key = None)
                (def_shape (h zodObject)))
             \<lparr>unknownKeys = Some (def_unknownKeys (h zodObject)),
              catchAll = def_catchall (h zodObject)\<rparr> state' of
        Inl e \<Rightarrow> Inl e
      | Inr (S, state2) \<Rightarrow>
          Inr (Some ((''allOf'', JArray [JObject [(''$ref'', JString
                 (createComponentSchemaRef X))]]) # S), state2))"
proof -
  let ?delta = "filter (\<lambda>(key, v). map_of (def_shape (h base)) key = None)
      (def_shape (h zodObject))"
  let ?own = "\<lparr>unknownKeys = Some (def_unknownKeys (h zodObject)),
      catchAll = def_catchall (h zodObject)\<rparr>"
  let ?allOf = "(''allOf'', JArray [JObject [(''$ref'', JString
      (createComponentSchemaRef X))]])"
  have base: "generateBase env h base state = Inr state'"
    using registered generated by (simp add: generateBase_registered)
  have opts: "createDiffOpts h
        \<lparr>unknownKeys = Some (def_unknownKeys (h base)), catchAll = def_catchall (h base)\<rparr>
        ?own = Some ?own"
    using not_strict never by (simp add: createDiffOpts_def)
  have diff: "createShapeDiff (def_shape (h base)) (def_shape (h zodObject)) = Some ?delta"
    using identical plain keys by (rule createShapeDiff_clean)
  have unfolded: "createExtendedSchema env h zodObject (Some base) state =
     (case createObjectSchemaFromShape env h ?delta ?own state' of
        Inl e \<Rightarrow> Inl e
      | Inr (S, state2) \<Rightarrow> Inr (Some (spread [?allOf] S), state2))"
    using base opts diff kept registered
    by (simp add: createExtendedSchema_def split: sum.splits prod.splits)
  show ?thesis
  proof (cases "createObjectSchemaFromShape env h ?delta ?own state'")
    case (Inl e)
    with unfolded show ?thesis by simp
  next
    case (Inr r)
    obtain S state2 where r: "r = (S, state2)" by (cases r)
    from Inr r have "distinct (map fst S)"
      and "fst ` set S \<subseteq> {''type'', ''properties'', ''required'', ''additionalProperties''}"
      by (simp_all add: createObjectSchemaFromShape_keys)
    then have "spread [?allOf] S = [?allOf] @ S"
      by (intro spread_disjoint) auto
    with unfolded Inr r show ?thesis by simp
  qed
qed

text \<open>The example of the spec: the base \<^verbatim>\<open>{a}\<close> with reference X, extended by \<^verbatim>\<open>b\<close>.\<close>

lemma createExtendedSchema_allOf_example:
  "schemas (components ex_state) 3
     = Some (CompleteSchemaComponent ''X'' [(''type'', JString ''object'')] (Some Output))
   \<and> def_unknownKeys (ex_heap 3) \<noteq> strict
   \<and> isZodType ex_heap (def_catchall (ex_heap 3)) ''ZodNever''
   \<and> distinct (map fst (def_shape (ex_heap 4)))
   \<and> createExtendedSchema ex_env ex_heap 4 (Some 3) ex_state =
      Inr (Some [(''allOf'', JArray [JObject [(''$ref'', JString ''#/components/schemas/X'')]]),
                 (''type'', JString ''object''),
                 (''properties'', JObject [(''b'', JObject [(''type'', JString ''string'')])]),
                 (''required'', JArray [JString ''b''])], ex_state)"
proof -
  have registered: "schemas (components ex_state) 3
     = Some (CompleteSchemaComponent ''X'' [(''type'', JString ''object'')] (Some Output))"
    by (simp add: ex_simps)
  have generated: "createSchemaObject ex_env 3 ex_state [''extended schema'']
     = Inr ([(''$ref'', JString ''#/components/schemas/X'')], ex_state)"
    by (simp add: ex_simps)
  have kept: "schemas (components ex_state) 3 = schemas (components ex_state) 3"
    by simp
  have not_strict: "def_unknownKeys (ex_heap 3) \<noteq> strict"
    by (simp add: ex_simps)
  have never: "isZodType ex_heap (def_catchall (ex_heap 3)) ''ZodNever''"
    by (simp add: ex_simps)
  have shapes: "def_shape (ex_heap 3) = [(''a'', 1)]"
    "def_shape (ex_heap 4) = [(''a'', 1), (''b'', 2)]"
    by (simp_all add: ex_simps)
  have identical: "\<forall>key b v. map_of (def_shape (ex_heap 3)) key = Some b
          \<and> (key, v) \<in> set (def_shape (ex_heap 4)) \<longrightarrow> v = b"
    unfolding shapes by auto
  have keys: "distinct (map fst (def_shape (ex_heap 4)))"
    unfolding shapes by simp
  have plain: "\<forall>key v. (key, v) \<in> set (def_shape (ex_heap 4))
          \<and> map_of (def_shape (ex_heap 3)) key = None
          \<longrightarrow> key \<notin> set Object_prototype_names"
    unfolding shapes by (auto simp: Object_prototype_names_def)
  have delta: "filter (\<lambda>(key, v). map_of (def_shape (ex_heap 3)) key = None)
      (def_shape (ex_heap 4)) = [(''b'', 2)]"
    unfolding shapes by simp
  have own: "createObjectSchemaFromShape ex_env ex_heap [(''b'', 2)]
      \<lparr>unknownKeys = Some (def_unknownKeys (ex_heap 4)),
       catchAll = def_catchall (ex_heap 4)\<rparr> ex_state =
    Inr ([(''type'', JString ''object''),
          (''properties'', JObject [(''b'', JObject [(''type'', JString ''string'')])]),
          (''required'', JArray [JString ''b''])], ex_state)"
    by (simp add: createObjectSchemaFromShape_entries mapRequired_def ex_simps)
  have "createExtendedSchema ex_env ex_heap 4 (Some 3) ex_state =
      Inr (Some [(''allOf'', JArray [JObject [(''$ref'', JString ''#/components/schemas/X'')]]),
                 (''type'', JString ''object''),
                 (''properties'', JObject [(''b'', JObject [(''type'', JString ''string'')])]),
                 (''required'', JArray [JString ''b''])], ex_state)"
    using createExtendedSchema_allOf
      [OF registered generated kept not_strict never identical plain keys]
    unfolding delta own by (simp add: createComponentSchemaRef_def)
  with registered not_strict never keys show ?thesis by simp
qed

text \<open>
  C5.  If a field name of the base maps to another node in the candidate, then
  \<^const>\<open>createShapeDiff\<close> returns nothing (\<^verbatim>\<open>null\<close>, no partial diff),
  \<^const>\<open>createExtendedSchema\<close> returns \<^verbatim>\<open>undefined\<close>, and \<^const>\<open>createObjectSchema\<close> of
  a candidate extending that base is the full inline generation from the candidate's own
  shape and options.  The mismatch raises nothing: the only error passed on is one the
  dispatcher raised when the base was generated first.
\<close>

theorem createShapeDiff_abandoned:
  assumes extends: "def_extends (h zodObject) = Some base"
    and shared: "map_of (def_shape (h base)) key = Some b"
    and redefined: "(key, v) \<in> set (def_shape (h zodObject))" "v \<noteq> b"
  shows "createShapeDiff (def_shape (h base)) (def_shape (h zodObject)) = None
    \<and> createExtendedSchema env h zodObject (Some base) state =
        (case generateBase env h base state of
           Inl e \<Rightarrow> Inl e
         | Inr state1 \<Rightarrow> Inr (None, state1))
    \<and> createObjectSchema env h zodObject state =
        (case generateBase env h base state of
           Inl e \<Rightarrow> Inl e
         | Inr state1 \<Rightarrow>
             createObjectSchemaFromShape env h (def_shape (h zodObject))
               \<lparr>unknownKeys = Some (def_unknownKeys (h zodObject)),
                catchAll = def_catchall (h zodObject)\<rparr> state1)"
proof -
  have none: "createShapeDiff (def_shape (h base)) (def_shape (h zodObject)) = None"
    using shared redefined by (rule createShapeDiff_conflict)
  then have ext: "createExtendedSchema env h zodObject (Some base) state =
        (case generateBase env h base state of
           Inl e \<Rightarrow> Inl e
         | Inr state1 \<Rightarrow> Inr (None, state1))"
    by (simp add: createExtendedSchema_no_diff)
  from extends ext have "createObjectSchema env h zodObject state =
        (case generateBase env h base state of
           Inl e \<Rightarrow> Inl e
         | Inr state1 \<Rightarrow>
             createObjectSchemaFromShape env h (def_shape (h zodObject))
               \<lparr>unknownKeys = Some (def_unknownKeys (h zodObject)),
                catchAll = def_catchall (h zodObject)\<rparr> state1)"
    by (rule createObjectSchema_fallback)
  with none ext show ?thesis by simp
qed

theorem createShapeDiff_abandoned_witness:
  "def_extends (ex_heap 12) = Some 3
   \<and> map_of (def_shape (ex_heap 3)) ''a'' = Some 1
   \<and> (''a'', 2) \<in> set (def_shape (ex_heap 12))
   \<and> createShapeDiff (def_shape (ex_heap 3)) (def_shape (ex_heap 12)) = None
   \<and> createExtendedSchema ex_env ex_heap 12 (Some 3) ex_state = Inr (None, ex_state)
   \<and> createObjectSchema ex_env ex_heap 12 ex_state =
      Inr ([(''type'', JString ''object''),
            (''properties'', JObject [(''a'', JObject [(''type'', JString ''string'')]),
                                      (''b'', JObject [(''type'', JString ''string'')])]),
            (''required'', JArray [JString ''a'', JString ''b''])], ex_state)"
proof -
  have extends: "def_extends (ex_heap 12) = Some 3"
    by (simp add: ex_simps)
  have shared: "map_of (def_shape (ex_heap 3)) ''a'' = Some 1"
    by (simp add: ex_simps)
  have redefined: "(''a'', 2) \<in> set (def_shape (ex_heap 12))" "(2::nat) \<noteq> 1"
    by (simp_all add: ex_simps)
  have base: "generateBase ex_env ex_heap 3 ex_state = Inr ex_state"
    by (simp add: generateBase_def ex_simps)
  have inline: "createObjectSchemaFromShape ex_env ex_heap (def_shape (ex_heap 12))
      \<lparr>unknownKeys = Some (def_unknownKeys (ex_heap 12)),
       catchAll = def_catchall (ex_heap 12)\<rparr> ex_state =
      Inr ([(''type'', JString ''object''),
            (''properties'', JObject [(''a'', JObject [(''type'', JString ''string'')]),
                                      (''b'', JObject [(''type'', JString ''string'')])]),
            (''required'', JArray [JString ''a'', JString ''b''])], ex_state)"
    by (simp add: createObjectSchemaFromShape_entries mapRequired_def ex_simps)
  from createShapeDiff_abandoned [OF extends shared redefined, of ex_env ex_state]
  have "createShapeDiff (def_shape (ex_heap 3)) (def_shape (ex_heap 12)) = None
    \<and> createExtendedSchema ex_env ex_heap 12 (Some 3) ex_state = Inr (None, ex_state)
    \<and> createObjectSchema ex_env ex_heap 12 ex_state =
      Inr ([(''type'', JString ''object''),
            (''properties'', JObject [(''a'', JObject [(''type'', JString ''string'')]),
                                      (''b'', JObject [(''type'', JString ''string'')])]),
            (''required'', JArray [JString ''a'', JString ''b''])], ex_state)"
    by (simp add: base inline)
  with extends shared redefined show ?thesis by simp
qed


lemma createExtendedSchema_Some:
  assumes "createExtendedSchema env h zodObject (Some base) state = Inr (Some S, state2)"
  shows "\<exists>state1 component diffShape delta.
      generateBase env h base state = Inr state1
      \<and> schemas (components state1) base = Some component
      \<and> createDiffOpts h
           \<lparr>unknownKeys = Some (def_unknownKeys (h base)), catchAll = def_catchall (h base)\<rparr>
           \<lparr>unknownKeys = Some (def_unknownKeys (h zodObject)),
            catchAll = def_catchall (h zodObject)\<rparr>
          = Some \<lparr>unknownKeys = Some (def_unknownKeys (h zodObject)),
                  catchAll = def_catchall (h zodObject)\<rparr>
      \<and> createShapeDiff (def_shape (h base)) (def_shape (h zodObject)) = Some diffShape
      \<and> createObjectSchemaFromShape env h diffShape
           \<lparr>unknownKeys = Some (def_unknownKeys (h zodObject)),
            catchAll = def_catchall (h zodObject)\<rparr> state1 = Inr (delta, state2)
      \<and> S = spread [(''allOf'', JArray [JObject [(''$ref'', JString
                 (createComponentSchemaRef (ref component)))]])] delta"
proof -
  from assms obtain state1 where base: "generateBase env h base state = Inr state1"
    by (auto simp: createExtendedSchema_def split: sum.splits)
  with assms obtain component where
    component: "schemas (components state1) base = Some component"
    by (auto simp: createExtendedSchema_def split: option.splits)
  let ?baseOpts = "\<lparr>unknownKeys = Some (def_unknownKeys (h base)),
      catchAll = def_catchall (h base)\<rparr>"
  let ?own = "\<lparr>unknownKeys = Some (def_unknownKeys (h zodObject)),
      catchAll = def_catchall (h zodObject)\<rparr>"
  from assms base component obtain diffOpts where
    opts: "createDiffOpts h ?baseOpts ?own = Some diffOpts"
    by (auto simp: createExtendedSchema_def split: option.splits)
  then have own: "diffOpts = ?own"
    by (auto simp: createDiffOpts_def split: if_splits)
  from assms base component opts obtain diffShape where
    diff: "createShapeDiff (def_shape (h base)) (def_shape (h zodObject)) = Some diffShape"
    by (auto simp: createExtendedSchema_def split: option.splits)
  from assms base component opts own diff obtain delta where
    "createObjectSchemaFromShape env h diffShape ?own state1 = Inr (delta, state2)"
    "S = spread [(''allOf'', JArray [JObject [(''$ref'', JString
                 (createComponentSchemaRef (ref component)))]])] delta"
    by (auto simp: createExtendedSchema_def split: sum.splits)
  with base component opts own diff show ?thesis by blast
qed

text \<open>
  C6.  \<^const>\<open>createDiffOpts\<close> returns nothing when the base's \<^verbatim>\<open>unknownKeys\<close> is strict
  or its catchall is not ZodNever, and the candidate's own options otherwise.  For such a
  base \<^const>\<open>createExtendedSchema\<close> returns \<^verbatim>\<open>undefined\<close> (after the base was generated,
  whose error, if any, is passed on), and \<^const>\<open>createObjectSchema\<close> of a candidate
  extending it is the full inline generation.  Whenever \<^const>\<open>createExtendedSchema\<close>
  does return an object, it is the \<^verbatim>\<open>allOf\<close> entry followed by a delta that
  \<^const>\<open>createObjectSchemaFromShape\<close> built with the candidate's own \<^verbatim>\<open>unknownKeys\<close> and
  catchall.
\<close>

theorem createDiffOpts_permissive_base:
  "(unknownKeys baseOpts = Some strict \<or> \<not> isZodType h (catchAll baseOpts) ''ZodNever''
      \<longrightarrow> createDiffOpts h baseOpts extendedOpts = None)
   \<and> (unknownKeys baseOpts \<noteq> Some strict \<and> isZodType h (catchAll baseOpts) ''ZodNever''
      \<longrightarrow> createDiffOpts h baseOpts extendedOpts = Some extendedOpts)
   \<and> (def_unknownKeys (h base) = strict \<or> \<not> isZodType h (def_catchall (h base)) ''ZodNever''
      \<longrightarrow> createExtendedSchema env h zodObject (Some base) state =
            (case generateBase env h base state of
               Inl e \<Rightarrow> Inl e
             | Inr state1 \<Rightarrow> Inr (None, state1))
          \<and> (def_extends (h zodObject) = Some base \<longrightarrow>
               createObjectSchema env h zodObject state =
                 (case generateBase env h base state of
                    Inl e \<Rightarrow> Inl e
                  | Inr state1 \<Rightarrow>
                      createObjectSchemaFromShape env h (def_shape (h zodObject))
                        \<lparr>unknownKeys = Some (def_unknownKeys (h zodObject)),
                         catchAll = def_catchall (h zodObject)\<rparr> state1)))
   \<and> (\<forall>S state2. createExtendedSchema env h zodObject (Some base) state = Inr (Some S, state2)
      \<longrightarrow> (\<exists>state1 component diffShape delta.
            schemas (components state1) base = Some component
            \<and> createObjectSchemaFromShape env h diffShape
                 \<lparr>unknownKeys = Some (def_unknownKeys (h zodObject)),
                  catchAll = def_catchall (h zodObject)\<rparr> state1 = Inr (delta, state2)
            \<and> S = (''allOf'', JArray [JObject [(''$ref'', JString
                       (createComponentSchemaRef (ref component)))]]) # delta))"
proof -
  let ?baseOpts = "\<lparr>unknownKeys = Some (def_unknownKeys (h base)),
      catchAll = def_catchall (h base)\<rparr>"
  let ?own = "\<lparr>unknownKeys = Some (def_unknownKeys (h zodObject)),
      catchAll = def_catchall (h zodObject)\<rparr>"
  have closed: "unknownKeys baseOpts = Some strict
      \<or> \<not> isZodType h (catchAll baseOpts) ''ZodNever''
      \<longrightarrow> createDiffOpts h baseOpts extendedOpts = None"
    by (simp add: createDiffOpts_def)
  have permissive: "unknownKeys baseOpts \<noteq> Some strict
      \<and> isZodType h (catchAll baseOpts) ''ZodNever''
      \<longrightarrow> createDiffOpts h baseOpts extendedOpts = Some extendedOpts"
    by (simp add: createDiffOpts_def)
  have fallback: "createExtendedSchema env h zodObject (Some base) state =
            (case generateBase env h base state of
               Inl e \<Rightarrow> Inl e
             | Inr state1 \<Rightarrow> Inr (None, state1))
          \<and> (def_extends (h zodObject) = Some base \<longrightarrow>
               createObjectSchema env h zodObject state =
                 (case generateBase env h base state of
                    Inl e \<Rightarrow> Inl e
                  | Inr state1 \<Rightarrow>
                      createObjectSchemaFromShape env h (def_shape (h zodObject)) ?own state1))"
    if "def_unknownKeys (h base) = strict
      \<or> \<not> isZodType h (def_catchall (h base)) ''ZodNever''"
  proof -
    from that have "createDiffOpts h ?baseOpts ?own = None"
      by (auto simp: createDiffOpts_def)
    then have ext: "createExtendedSchema env h zodObject (Some base) state =
            (case generateBase env h base state of
               Inl e \<Rightarrow> Inl e
             | Inr state1 \<Rightarrow> Inr (None, state1))"
      by (simp add: createExtendedSchema_no_diff)
    then show ?thesis
      by (simp add: createObjectSchema_fallback)
  qed
  have applied: "\<exists>state1 component diffShape delta.
            schemas (components state1) base = Some component
            \<and> createObjectSchemaFromShape env h diffShape ?own state1 = Inr (delta, state2)
            \<and> S = (''allOf'', JArray [JObject [(''$ref'', JString
                       (createComponentSchemaRef (ref component)))]]) # delta"
    if "createExtendedSchema env h zodObject (Some base) state = Inr (Some S, state2)"
    for S state2
  proof -
    from createExtendedSchema_Some [OF that]
    obtain state1 component diffShape delta where
      component: "schemas (components state1) base = Some component"
      and delta: "createObjectSchemaFromShape env h diffShape ?own state1 = Inr (delta, state2)"
      and S: "S = spread [(''allOf'', JArray [JObject [(''$ref'', JString
                 (createComponentSchemaRef (ref component)))]])] delta"
      by blast
    from delta have "distinct (map fst delta)"
      and "fst ` set delta
        \<subseteq> {''type'', ''properties'', ''required'', ''additionalProperties''}"
      by (simp_all add: createObjectSchemaFromShape_keys)
    then have "spread [(''allOf'', JArray [JObject [(''$ref'', JString
                 (createComponentSchemaRef (ref component)))]])] delta
        = [(''allOf'', JArray [JObject [(''$ref'', JString
                 (createComponentSchemaRef (ref component)))]])] @ delta"
      by (intro spread_disjoint) auto
    with component delta S show ?thesis by auto
  qed
  from closed permissive fallback applied show ?thesis by blast
qed


theorem createDiffOpts_permissive_base_witness:
  "def_unknownKeys (ex_heap 13) = strict
   \<and> def_extends (ex_heap 14) = Some 13
   \<and> createDiffOpts ex_heap \<lparr>unknownKeys = Some strict, catchAll = 0\<rparr>
         \<lparr>unknownKeys = Some strip, catchAll = 0\<rparr> = None
   \<and> isZodType ex_heap 0 ''ZodNever''
   \<and> createDiffOpts ex_heap \<lparr>unknownKeys = Some strip, catchAll = 0\<rparr>
         \<lparr>unknownKeys = Some strict, catchAll = 2\<rparr>
       = Some \<lparr>unknownKeys = Some strict, catchAll = 2\<rparr>
   \<and> createExtendedSchema ex_env ex_heap 14 (Some 13) ex_state = Inr (None, ex_state)
   \<and> createObjectSchema ex_env ex_heap 14 ex_state =
      Inr ([(''type'', JString ''object''),
            (''properties'', JObject [(''a'', JObject [(''type'', JString ''string'')]),
                                      (''b'', JObject [(''type'', JString ''string'')])]),
            (''required'', JArray [JString ''a'', JString ''b''])], ex_state)"
proof -
  have strict_base: "def_unknownKeys (ex_heap 13) = strict"
    by (simp add: ex_simps)
  have extends: "def_extends (ex_heap 14) = Some 13"
    by (simp add: ex_simps)
  have never: "isZodType ex_heap 0 ''ZodNever''"
    by (simp add: ex_simps)
  have base: "generateBase ex_env ex_heap 13 ex_state = Inr ex_state"
    by (simp add: generateBase_def ex_simps)
  have inline: "createObjectSchemaFromShape ex_env ex_heap (def_shape (ex_heap 14))
      \<lparr>unknownKeys = Some (def_unknownKeys (ex_heap 14)),
       catchAll = def_catchall (ex_heap 14)\<rparr> ex_state =
      Inr ([(''type'', JString ''object''),
            (''properties'', JObject [(''a'', JObject [(''type'', JString ''string'')]),
                                      (''b'', JObject [(''type'', JString ''string'')])]),
            (''required'', JArray [JString ''a'', JString ''b''])], ex_state)"
    by (simp add: createObjectSchemaFromShape_entries mapRequired_def ex_simps)
  note closed = createDiffOpts_permissive_base
      [where h = ex_heap and baseOpts = "\<lparr>unknownKeys = Some strict, catchAll = 0\<rparr>"
         and extendedOpts = "\<lparr>unknownKeys = Some strip, catchAll = 0\<rparr>",
       THEN conjunct1]
  note permissive = createDiffOpts_permissive_base
      [where h = ex_heap and baseOpts = "\<lparr>unknownKeys = Some strip, catchAll = 0\<rparr>"
         and extendedOpts = "\<lparr>unknownKeys = Some strict, catchAll = 2\<rparr>",
       THEN conjunct2, THEN conjunct1]
  note fallback = createDiffOpts_permissive_base
      [where h = ex_heap and env = ex_env and base = 13 and zodObject = 14
         and state = ex_state, THEN conjunct2, THEN conjunct2, THEN conjunct1]
  from closed have c1: "createDiffOpts ex_heap \<lparr>unknownKeys = Some strict, catchAll = 0\<rparr>
         \<lparr>unknownKeys = Some strip, catchAll = 0\<rparr> = None"
    by simp
  from permissive never have c2:
    "createDiffOpts ex_heap \<lparr>unknownKeys = Some strip, catchAll = 0\<rparr>
         \<lparr>unknownKeys = Some strict, catchAll = 2\<rparr>
       = Some \<lparr>unknownKeys = Some strict, catchAll = 2\<rparr>"
    by simp
  from fallback strict_base extends have c3:
    "createExtendedSchema ex_env ex_heap 14 (Some 13) ex_state = Inr (None, ex_state)
     \<and> createObjectSchema ex_env ex_heap 14 ex_state =
      Inr ([(''type'', JString ''object''),
            (''properties'', JObject [(''a'', JObject [(''type'', JString ''string'')]),
                                      (''b'', JObject [(''type'', JString ''string'')])]),
            (''required'', JArray [JString ''a'', JString ''b''])], ex_state)"
    by (simp add: base inline)
  from strict_base extends never c1 c2 c3 show ?thesis by simp
qed

section \<open>Equivalent states\<close>

lemma rel_sum_InlE:
  assumes "rel_sum (=) Q x y" and "x = Inl e"
  shows "y = Inl e"
  using assms by (cases y) simp_all

lemma rel_sum_InrE:
  assumes "rel_sum (=) (rel_prod (=) R) x y" and "x = Inr (s, t)"
  obtains t' where "y = Inr (s, t')" and "R t t'"
  using assms by (cases y) auto

lemma mapProperties_reduce_rel:
  assumes dispatcher: "\<forall>z p s s'. R s s' \<longrightarrow>
      rel_sum (=) (rel_prod (=) R) (createSchemaObject env z s p) (createSchemaObject env z s' p)"
  shows "R state state' \<Longrightarrow>
     rel_sum (=) (rel_prod (=) R)
       (mapProperties_reduce env shape state acc) (mapProperties_reduce env shape state' acc)"
proof (induction shape arbitrary: state state' acc)
  case Nil
  then show ?case by simp
next
  case (Cons entry rest)
  obtain key zodSchema where entry: "entry = (key, zodSchema)" by (cases entry)
  let ?p = "[''property: '' @ key]"
  from dispatcher Cons.prems
  have step: "rel_sum (=) (rel_prod (=) R)
      (createSchemaObject env zodSchema state ?p) (createSchemaObject env zodSchema state' ?p)"
    by blast
  show ?case
  proof (cases "createSchemaObject env zodSchema state ?p")
    case (Inl e)
    with step have "createSchemaObject env zodSchema state' ?p = Inl e"
      by (rule rel_sum_InlE)
    with Inl entry show ?thesis by simp
  next
    case (Inr r)
    obtain s t where r: "r = (s, t)" by (cases r)
    from step Inr r obtain t' where
      other: "createSchemaObject env zodSchema state' ?p = Inr (s, t')" and rel: "R t t'"
      by (auto elim: rel_sum_InrE)
    from Cons.IH [OF rel, of "setProperty key (JObject s) acc"] Inr r other entry
    show ?thesis by simp
  qed
qed

lemma mapRequired_cong:
  assumes "\<forall>z s s'. R s s' \<longrightarrow> isOptionalSchema env z s = isOptionalSchema env z s'"
    and "R state state'"
  shows "mapRequired env shape state = mapRequired env shape state'"
proof -
  from assms have "\<And>z. isOptionalSchema env z state = isOptionalSchema env z state'"
    by blast
  then show ?thesis by (simp add: mapRequired_def)
qed

lemma createObjectSchemaFromShape_rel:
  assumes dispatcher: "\<forall>z p s s'. R s s' \<longrightarrow>
      rel_sum (=) (rel_prod (=) R) (createSchemaObject env z s p) (createSchemaObject env z s' p)"
    and optional: "\<forall>z s s'. R s s' \<longrightarrow> isOptionalSchema env z s = isOptionalSchema env z s'"
    and equivalent: "R state state'"
  shows "rel_sum (=) (rel_prod (=) R)
     (createObjectSchemaFromShape env h shape opts state)
     (createObjectSchemaFromShape env h shape opts state')"
proof -
  have reduce: "rel_sum (=) (rel_prod (=) R)
      (mapProperties_reduce env shape state []) (mapProperties_reduce env shape state' [])"
    using dispatcher equivalent by (rule mapProperties_reduce_rel)
  show ?thesis
  proof (cases "mapProperties_reduce env shape state []")
    case (Inl e)
    with reduce have "mapProperties_reduce env shape state' [] = Inl e"
      by (rule rel_sum_InlE)
    with Inl show ?thesis by (simp add: createObjectSchemaFromShape_entries)
  next
    case (Inr r)
    obtain p t where r: "r = (p, t)" by (cases r)
    from reduce Inr r obtain t' where
      other: "mapProperties_reduce env shape state' [] = Inr (p, t')" and rel: "R t t'"
      by (auto elim: rel_sum_InrE)
    have required: "mapRequired env shape t = mapRequired env shape t'"
      using optional rel by (rule mapRequired_cong)
    show ?thesis
    proof (cases "isZodType h (catchAll opts) ''ZodNever''")
      case True
      with Inr r other rel required show ?thesis
        by (simp add: createObjectSchemaFromShape_entries)
    next
      case False
      let ?p = "[''additional properties'']"
      from dispatcher rel
      have step: "rel_sum (=) (rel_prod (=) R)
          (createSchemaObject env (catchAll opts) t ?p)
          (createSchemaObject env (catchAll opts) t' ?p)"
        by blast
      show ?thesis
      proof (cases "createSchemaObject env (catchAll opts) t ?p")
        case inner: (Inl e)
        with step have "createSchemaObject env (catchAll opts) t' ?p = Inl e"
          by (rule rel_sum_InlE)
        with inner False Inr r other show ?thesis
          by (simp add: createObjectSchemaFromShape_entries)
      next
        case inner: (Inr q)
        obtain s u where q: "q = (s, u)" by (cases q)
        from step inner q obtain u' where
          "createSchemaObject env (catchAll opts) t' ?p = Inr (s, u')" and "R u u'"
          by (auto elim: rel_sum_InrE)
        with inner q False Inr r other required show ?thesis
          by (simp add: createObjectSchemaFromShape_entries)
      qed
    qed
  qed
qed

text \<open>
  C9.  \<^const>\<open>createObjectSchemaFromShape\<close> reads nothing but its arguments.  For every
  relation \<open>R\<close> between states that the collaborators respect (on related states the
  dispatcher raises the same error, or returns the same fragment and related states; the
  optionality query answers the same), converting one shape with the same options on two
  related states raises the same error, or yields identical fragments and related states.
  In particular, when a conversion leaves a state related to the one it started from,
  converting the same shape again on the state it left yields the identical fragment.
\<close>

theorem createObjectSchemaFromShape_deterministic:
  assumes dispatcher: "\<forall>z p s s'. R s s' \<longrightarrow>
      rel_sum (=) (rel_prod (=) R) (createSchemaObject env z s p) (createSchemaObject env z s' p)"
    and optional: "\<forall>z s s'. R s s' \<longrightarrow> isOptionalSchema env z s = isOptionalSchema env z s'"
    and equivalent: "R state state'"
  shows "rel_sum (=) (rel_prod (=) R)
       (createObjectSchemaFromShape env h shape opts state)
       (createObjectSchemaFromShape env h shape opts state')
    \<and> (\<forall>fragment state1.
          createObjectSchemaFromShape env h shape opts state = Inr (fragment, state1)
          \<and> R state state1 \<longrightarrow>
          (\<exists>state2. createObjectSchemaFromShape env h shape opts state1
               = Inr (fragment, state2) \<and> R state1 state2))"
proof -
  have once: "rel_sum (=) (rel_prod (=) R)
       (createObjectSchemaFromShape env h shape opts state)
       (createObjectSchemaFromShape env h shape opts state')"
    using dispatcher optional equivalent by (rule createObjectSchemaFromShape_rel)
  have twice: "\<exists>state2. createObjectSchemaFromShape env h shape opts state1
               = Inr (fragment, state2) \<and> R state1 state2"
    if first: "createObjectSchemaFromShape env h shape opts state = Inr (fragment, state1)"
      and left: "R state state1"
    for fragment state1
  proof -
    have "rel_sum (=) (rel_prod (=) R)
       (createObjectSchemaFromShape env h shape opts state)
       (createObjectSchemaFromShape env h shape opts state1)"
      using dispatcher optional left by (rule createObjectSchemaFromShape_rel)
    with first show ?thesis
      by (auto elim: rel_sum_InrE)
  qed
  from once twice show ?thesis by blast
qed

theorem createObjectSchemaFromShape_deterministic_witness:
  "ex_equiv ex_state (ex_state\<lparr>path := [''x'']\<rparr>)
   \<and> createObjectSchemaFromShape ex_env ex_heap [(''a'', 1), (''o'', 5)]
         \<lparr>unknownKeys = Some strip, catchAll = 0\<rparr> ex_state
       = Inr ([(''type'', JString ''object''),
               (''properties'', JObject [(''a'', JObject [(''type'', JString ''string'')]),
                                         (''o'', JObject [(''type'', JString ''string'')])]),
               (''required'', JArray [JString ''a''])], ex_state)
   \<and> createObjectSchemaFromShape ex_env ex_heap [(''a'', 1), (''o'', 5)]
         \<lparr>unknownKeys = Some strip, catchAll = 0\<rparr> (ex_state\<lparr>path := [''x'']\<rparr>)
       = Inr ([(''type'', JString ''object''),
               (''properties'', JObject [(''a'', JObject [(''type'', JString ''string'')]),
                                         (''o'', JObject [(''type'', JString ''string'')])]),
               (''required'', JArray [JString ''a''])], ex_state\<lparr>path := [''x'']\<rparr>)
   \<and> rel_sum (=) (rel_prod (=) ex_equiv)
        (createObjectSchemaFromShape ex_env ex_heap [(''a'', 1), (''o'', 5)]
           \<lparr>unknownKeys = Some strip, catchAll = 0\<rparr> ex_state)
        (createObjectSchemaFromShape ex_env ex_heap [(''a'', 1), (''o'', 5)]
           \<lparr>unknownKeys = Some strip, catchAll = 0\<rparr> (ex_state\<lparr>path := [''x'']\<rparr>))"
proof -
  have dispatcher: "\<forall>z p s s'. ex_equiv s s' \<longrightarrow>
      rel_sum (=) (rel_prod (=) ex_equiv)
        (createSchemaObject ex_env z s p) (createSchemaObject ex_env z s' p)"
    by (simp add: ex_env_def ex_createSchemaObject_def ex_equiv_def split: option.splits)
  have optional: "\<forall>z s s'. ex_equiv s s' \<longrightarrow>
      isOptionalSchema ex_env z s = isOptionalSchema ex_env z s'"
    by (simp add: ex_env_def)
  have equivalent: "ex_equiv ex_state (ex_state\<lparr>path := [''x'']\<rparr>)"
    by (simp add: ex_equiv_def)
  have first: "createObjectSchemaFromShape ex_env ex_heap [(''a'', 1), (''o'', 5)]
         \<lparr>unknownKeys = Some strip, catchAll = 0\<rparr> ex_state
       = Inr ([(''type'', JString ''object''),
               (''properties'', JObject [(''a'', JObject [(''type'', JString ''string'')]),
                                         (''o'', JObject [(''type'', JString ''string'')])]),
               (''required'', JArray [JString ''a''])], ex_state)"
    by (simp add: createObjectSchemaFromShape_entries mapRequired_def ex_simps)
  have second: "createObjectSchemaFromShape ex_env ex_heap [(''a'', 1), (''o'', 5)]
         \<lparr>unknownKeys = Some strip, catchAll = 0\<rparr> (ex_state\<lparr>path := [''x'']\<rparr>)
       = Inr ([(''type'', JString ''object''),
               (''properties'', JObject [(''a'', JObject [(''type'', JString ''string'')]),
                                         (''o'', JObject [(''type'', JString ''string'')])]),
               (''required'', JArray [JString ''a''])], ex_state\<lparr>path := [''x'']\<rparr>)"
    by (simp add: createObjectSchemaFromShape_entries mapRequired_def ex_simps)
  note related = createObjectSchemaFromShape_deterministic
      [OF dispatcher optional equivalent, THEN conjunct1]
  from equivalent first second related show ?thesis by blast
qed

section \<open>Discriminated unions\<close>

lemma createOptionSchemas_length:
  "createOptionSchemas env subpath options i state = Inr (fragments, state') \<Longrightarrow>
     length fragments = length options"
proof (induction options arbitrary: i state fragments)
  case Nil
  then show ?case by simp
next
  case (Cons option rest)
  from Cons.prems obtain s state1 ss where
    "createOptionSchemas env subpath rest (Suc i) state1 = Inr (ss, state')"
    and "fragments = s # ss"
    by (auto split: sum.splits)
  with Cons.IH show ?case by fastforce
qed

lemma map_of_addMapping:
  "map_of (addMapping target mapping v) k =
     (case map_of mapping k of
        Some x \<Rightarrow> Some x
      | None \<Rightarrow> if k = v then Some (JString target) else None)"
  by (auto simp: addMapping_def map_add_def split: option.splits)

lemma map_of_foldl_addMapping:
  "map_of (foldl (addMapping target) mapping vs) k =
     (case map_of mapping k of
        Some x \<Rightarrow> Some x
      | None \<Rightarrow> if k \<in> set vs then Some (JString target) else None)"
proof (induction vs arbitrary: mapping)
  case Nil
  then show ?case by (simp split: option.splits)
next
  case (Cons v vs)
  show ?case
    by (simp add: Cons.IH map_of_addMapping split: option.splits)
qed

lemma distinct_addMapping:
  "distinct (map fst mapping) \<Longrightarrow> distinct (map fst (addMapping target mapping v))"
  by (auto simp: addMapping_def map_of_eq_None_iff)

lemma distinct_foldl_addMapping:
  "distinct (map fst mapping) \<Longrightarrow> distinct (map fst (foldl (addMapping target) mapping vs))"
  by (induction vs arbitrary: mapping) (simp_all add: distinct_addMapping)

lemma keys_foldl_addMapping:
  "fst ` set (foldl (addMapping target) mapping vs) = fst ` set mapping \<union> set vs"
proof -
  have "dom (map_of (foldl (addMapping target) mapping vs)) = dom (map_of mapping) \<union> set vs"
    by (auto simp: dom_def map_of_foldl_addMapping split: option.splits if_splits)
  then show ?thesis by (simp add: dom_map_of_conv_image_fst)
qed

lemma mapDiscriminator_loop_None:
  "mapDiscriminator_loop h state discriminator options mapping = None \<longleftrightarrow>
     (\<exists>option \<in> set options. schemas (components state) option = None)"
  by (induction options arbitrary: mapping) (auto split: option.splits)

lemma mapDiscriminator_loop_Some:
  assumes "mapDiscriminator_loop h state discriminator options mapping = Some result"
  shows "(distinct (map fst mapping) \<longrightarrow> distinct (map fst result))
    \<and> fst ` set result = fst ` set mapping
          \<union> (\<Union>option \<in> set options. set (discriminatorValues h discriminator option))
    \<and> (\<forall>v. map_of result v =
          (case map_of mapping v of
             Some x \<Rightarrow> Some x
           | None \<Rightarrow>
               (case find (\<lambda>option. v \<in> set (discriminatorValues h discriminator option))
                       options of
                  None \<Rightarrow> None
                | Some option \<Rightarrow>
                    map_option (\<lambda>component. JString (createComponentSchemaRef (ref component)))
                      (schemas (components state) option))))"
  using assms
proof (induction options arbitrary: mapping)
  case Nil
  then show ?case by (auto split: option.splits)
next
  case (Cons option rest)
  from Cons.prems obtain component where
    component: "schemas (components state) option = Some component"
    by (auto split: option.splits)
  let ?next = "foldl (addMapping (createComponentSchemaRef (ref component))) mapping
      (discriminatorValues h discriminator option)"
  from Cons.prems component have
    rest: "mapDiscriminator_loop h state discriminator rest ?next = Some result"
    by simp
  note IH = Cons.IH [OF rest]
  have once: "distinct (map fst mapping) \<longrightarrow> distinct (map fst result)"
    using IH by (simp add: distinct_foldl_addMapping)
  have keys: "fst ` set result = fst ` set mapping
      \<union> (\<Union>option \<in> set (option # rest). set (discriminatorValues h discriminator option))"
    using IH by (auto simp: keys_foldl_addMapping)
  have lookup: "map_of result v =
          (case map_of mapping v of
             Some x \<Rightarrow> Some x
           | None \<Rightarrow>
               (case find (\<lambda>option. v \<in> set (discriminatorValues h discriminator option))
                       (option # rest) of
                  None \<Rightarrow> None
                | Some option \<Rightarrow>
                    map_option (\<lambda>component. JString (createComponentSchemaRef (ref component)))
                      (schemas (components state) option)))" for v
    using IH component
    by (simp add: map_of_foldl_addMapping split: option.splits)
  from once keys lookup show ?case by blast
qed

lemma find_discriminator_value:
  "distinct (concat (map f options)) \<Longrightarrow> option \<in> set options \<Longrightarrow> v \<in> set (f option) \<Longrightarrow>
     find (\<lambda>option. v \<in> set (f option)) options = Some option"
proof (induction options)
  case Nil
  then show ?case by simp
next
  case (Cons first rest)
  show ?case
  proof (cases "v \<in> set (f first)")
    case True
    have "option = first"
    proof (rule ccontr)
      assume "option \<noteq> first"
      with Cons.prems have "option \<in> set rest" by simp
      with Cons.prems(3) have "v \<in> set (concat (map f rest))" by auto
      with True Cons.prems(1) show False by auto
    qed
    with True show ?thesis by simp
  next
    case False
    with Cons.prems have "option \<in> set rest" by auto
    with Cons.IH Cons.prems False show ?thesis by simp
  qed
qed


text \<open>
  C7.  When the dispatcher has converted every member, \<^verbatim>\<open>oneOf\<close> lists one fragment for
  each member.  If a member has no record in the registry after the conversion, the result
  is \<^verbatim>\<open>oneOf\<close> alone, with no \<^verbatim>\<open>discriminator\<close> key.  If every member has one, the
  result has \<^verbatim>\<open>discriminator\<close> after \<^verbatim>\<open>oneOf\<close>, with the property name and a mapping
  that has exactly one entry for each discriminator value of each member; when no value
  occurs twice among the members (the validation library's constructor rejects a union
  with a repeated value), every value of a member, so each value of an enum, maps to that
  member's reference path.  An error converting a member is passed on.
\<close>

theorem createDiscriminatedUnionSchema_discriminator:
  "(case createOptionSchemas env subpath (def_options (h zodUnion)) 0 state of
      Inl e \<Rightarrow> createDiscriminatedUnionSchema env h subpath zodUnion state = Inl e
    | Inr (fragments, state') \<Rightarrow>
        length fragments = length (def_options (h zodUnion))
        \<and> (if \<forall>option \<in> set (def_options (h zodUnion)).
                 schemas (components state') option \<noteq> None
           then \<exists>mapping.
               createDiscriminatedUnionSchema env h subpath zodUnion state =
                 Inr ([(''oneOf'', JArray (map JObject fragments)),
                       (''discriminator'', JObject
                          [(''propertyName'', JString (def_discriminator (h zodUnion))),
                           (''mapping'', JObject mapping)])], state')
               \<and> distinct (map fst mapping)
               \<and> fst ` set mapping =
                   (\<Union>option \<in> set (def_options (h zodUnion)).
                      set (discriminatorValues h (def_discriminator (h zodUnion)) option))
               \<and> (distinct (concat (map (discriminatorValues h (def_discriminator (h zodUnion)))
                              (def_options (h zodUnion)))) \<longrightarrow>
                    (\<forall>option \<in> set (def_options (h zodUnion)).
                     \<forall>v \<in> set (discriminatorValues h (def_discriminator (h zodUnion)) option).
                     \<forall>component. schemas (components state') option = Some component \<longrightarrow>
                       map_of mapping v
                         = Some (JString (createComponentSchemaRef (ref component)))))
           else createDiscriminatedUnionSchema env h subpath zodUnion state =
                  Inr ([(''oneOf'', JArray (map JObject fragments))], state')))"
proof (cases "createOptionSchemas env subpath (def_options (h zodUnion)) 0 state")
  case (Inl e)
  then show ?thesis by (simp add: createDiscriminatedUnionSchema_def)
next
  case (Inr r)
  obtain fragments state' where r: "r = (fragments, state')" by (cases r)
  let ?options = "def_options (h zodUnion)"
  let ?key = "def_discriminator (h zodUnion)"
  from Inr r have len: "length fragments = length ?options"
    by (simp add: createOptionSchemas_length)
  show ?thesis
  proof (cases "\<forall>option \<in> set ?options. schemas (components state') option \<noteq> None")
    case False
    then have "mapDiscriminator_loop h state' ?key ?options [] = None"
      by (simp add: mapDiscriminator_loop_None)
    with Inr r have "createDiscriminatedUnionSchema env h subpath zodUnion state =
        Inr ([(''oneOf'', JArray (map JObject fragments))], state')"
      by (simp add: createDiscriminatedUnionSchema_def mapDiscriminator_def)
    with Inr r len False show ?thesis by simp
  next
    case True
    then have "mapDiscriminator_loop h state' ?key ?options [] \<noteq> None"
      by (simp add: mapDiscriminator_loop_None)
    then obtain mapping where
      loop: "mapDiscriminator_loop h state' ?key ?options [] = Some mapping"
      by blast
    note facts = mapDiscriminator_loop_Some [OF loop]
    from Inr r loop have result: "createDiscriminatedUnionSchema env h subpath zodUnion state =
        Inr ([(''oneOf'', JArray (map JObject fragments)),
              (''discriminator'', JObject
                 [(''propertyName'', JString ?key), (''mapping'', JObject mapping)])], state')"
      by (simp add: createDiscriminatedUnionSchema_def mapDiscriminator_def)
    from facts have once: "distinct (map fst mapping)" by simp
    from facts have keys: "fst ` set mapping =
        (\<Union>option \<in> set ?options. set (discriminatorValues h ?key option))"
      by simp
    have targets: "map_of mapping v = Some (JString (createComponentSchemaRef (ref component)))"
      if "distinct (concat (map (discriminatorValues h ?key) ?options))"
        and "option \<in> set ?options" and "v \<in> set (discriminatorValues h ?key option)"
        and "schemas (components state') option = Some component"
      for option v component
    proof -
      from that
      have "find (\<lambda>option. v \<in> set (discriminatorValues h ?key option)) ?options = Some option"
        by (simp add: find_discriminator_value)
      with facts that(4) show ?thesis by simp
    qed
    have "\<exists>mapping.
        createDiscriminatedUnionSchema env h subpath zodUnion state =
          Inr ([(''oneOf'', JArray (map JObject fragments)),
                (''discriminator'', JObject
                   [(''propertyName'', JString ?key), (''mapping'', JObject mapping)])], state')
        \<and> distinct (map fst mapping)
        \<and> fst ` set mapping =
            (\<Union>option \<in> set ?options. set (discriminatorValues h ?key option))
        \<and> (distinct (concat (map (discriminatorValues h ?key) ?options)) \<longrightarrow>
             (\<forall>option \<in> set ?options.
              \<forall>v \<in> set (discriminatorValues h ?key option).
              \<forall>component. schemas (components state') option = Some component \<longrightarrow>
                map_of mapping v = Some (JString (createComponentSchemaRef (ref component)))))"
      using result once keys targets by blast
    with Inr r len True show ?thesis by simp
  qed
qed

theorem createDiscriminatedUnionSchema_discriminator_witness:
  "createOptionSchemas ex_env ex_subpath (def_options (ex_heap 11)) 0 ex_state =
     Inr ([[(''$ref'', JString ''#/components/schemas/c'')],
           [(''$ref'', JString ''#/components/schemas/d'')]], ex_state)
   \<and> schemas (components ex_state) 9 = Some (ManualSchemaComponent ''c'')
   \<and> schemas (components ex_state) 10 = Some (ManualSchemaComponent ''d'')
   \<and> schemas (components ex_state) 18 = None
   \<and> discriminatorValues ex_heap ''type'' 10 = [''d'', ''e'']
   \<and> distinct (concat (map (discriminatorValues ex_heap (def_discriminator (ex_heap 11)))
         (def_options (ex_heap 11))))
   \<and> createDiscriminatedUnionSchema ex_env ex_heap ex_subpath 11 ex_state =
     Inr ([(''oneOf'', JArray [JObject [(''$ref'', JString ''#/components/schemas/c'')],
                              JObject [(''$ref'', JString ''#/components/schemas/d'')]]),
           (''discriminator'', JObject
              [(''propertyName'', JString ''type''),
               (''mapping'', JObject [(''c'', JString ''#/components/schemas/c''),
                                     (''d'', JString ''#/components/schemas/d''),
                                     (''e'', JString ''#/components/schemas/d'')])])],
          ex_state)
   \<and> createDiscriminatedUnionSchema ex_env ex_heap ex_subpath 17 ex_state =
     Inr ([(''oneOf'', JArray [JObject [(''$ref'', JString ''#/components/schemas/c'')],
                              JObject [(''$ref'', JString ''#/components/schemas/d'')],
                              JObject [(''type'', JString ''string'')]])], ex_state)"
proof -
  have node: "def_options (ex_heap 11) = [9, 10]" "def_discriminator (ex_heap 11) = ''type''"
    "def_options (ex_heap 17) = [9, 10, 18]" "def_discriminator (ex_heap 17) = ''type''"
    by (simp_all add: ex_simps)
  have registry: "schemas (components ex_state) 9 = Some (ManualSchemaComponent ''c'')"
    "schemas (components ex_state) 10 = Some (ManualSchemaComponent ''d'')"
    "schemas (components ex_state) 18 = None"
    by (simp_all add: ex_simps)
  have disc: "discriminatorValues ex_heap ''type'' 9 = [''c'']"
    "discriminatorValues ex_heap ''type'' 10 = [''d'', ''e'']"
    by (simp_all add: discriminatorValues_def ex_simps)
  have converted: "createOptionSchemas ex_env ex_subpath [9, 10] 0 ex_state =
     Inr ([[(''$ref'', JString ''#/components/schemas/c'')],
           [(''$ref'', JString ''#/components/schemas/d'')]], ex_state)"
    "createOptionSchemas ex_env ex_subpath [9, 10, 18] 0 ex_state =
     Inr ([[(''$ref'', JString ''#/components/schemas/c'')],
           [(''$ref'', JString ''#/components/schemas/d'')],
           [(''type'', JString ''string'')]], ex_state)"
    by (simp_all add: ex_simps)
  from createDiscriminatedUnionSchema_discriminator
      [where env = ex_env and h = ex_heap and subpath = ex_subpath and zodUnion = 11
         and state = ex_state]
  obtain mapping where
    with_mapping: "createDiscriminatedUnionSchema ex_env ex_heap ex_subpath 11 ex_state =
      Inr ([(''oneOf'', JArray [JObject [(''$ref'', JString ''#/components/schemas/c'')],
                               JObject [(''$ref'', JString ''#/components/schemas/d'')]]),
            (''discriminator'', JObject
               [(''propertyName'', JString ''type''), (''mapping'', JObject mapping)])],
           ex_state)"
    and enum: "map_of mapping ''e'' = Some (JString ''#/components/schemas/d'')"
    unfolding node converted
    by (auto simp: registry disc createComponentSchemaRef_def)
  have evaluated: "createDiscriminatedUnionSchema ex_env ex_heap ex_subpath 11 ex_state =
     Inr ([(''oneOf'', JArray [JObject [(''$ref'', JString ''#/components/schemas/c'')],
                              JObject [(''$ref'', JString ''#/components/schemas/d'')]]),
           (''discriminator'', JObject
              [(''propertyName'', JString ''type''),
               (''mapping'', JObject [(''c'', JString ''#/components/schemas/c''),
                                     (''d'', JString ''#/components/schemas/d''),
                                     (''e'', JString ''#/components/schemas/d'')])])],
          ex_state)"
    by (simp add: createDiscriminatedUnionSchema_def mapDiscriminator_def
        discriminatorValues_def addMapping_def ex_simps)
  from createDiscriminatedUnionSchema_discriminator
      [where env = ex_env and h = ex_heap and subpath = ex_subpath and zodUnion = 17
         and state = ex_state]
  have unregistered: "createDiscriminatedUnionSchema ex_env ex_heap ex_subpath 17 ex_state =
     Inr ([(''oneOf'', JArray [JObject [(''$ref'', JString ''#/components/schemas/c'')],
                              JObject [(''$ref'', JString ''#/components/schemas/d'')],
                              JObject [(''type'', JString ''string'')]])], ex_state)"
    unfolding node converted by (simp add: registry)
  from with_mapping enum evaluated unregistered registry disc converted(1)
  show ?thesis by (simp add: node)
qed

end
